theory Spec2Isabelle
  imports Main "HOL-Library.Sublist" "HOL-Library.AList"
begin

section \<open>Python strings\<close>

text \<open>
  A Python \<open>str\<close> is modelled as a \<open>string\<close>, one \<open>char\<close> per code point, so the
  model covers the code points 0 to 255. The character classes below are the ones
  Python's Unicode tables give on that range.
\<close>

text \<open>\<open>str.isspace\<close> on one character: the characters \<open>str.strip()\<close> removes.\<close>

definition whitespace_chars :: "char list" where
  "whitespace_chars =
     [CHR 0x09, CHR 0x0A, CHR 0x0B, CHR 0x0C, CHR 0x0D, CHR 0x1C, CHR 0x1D, CHR 0x1E,
      CHR 0x1F, CHR 0x20, CHR 0x85, CHR 0xA0]"

definition isspace :: "char \<Rightarrow> bool" where
  "isspace c \<longleftrightarrow> c \<in> set whitespace_chars"

text \<open>\<open>str.strip()\<close>: drop the leading and the trailing whitespace.\<close>

definition py_strip :: "string \<Rightarrow> string" where
  "py_strip s = rev (dropWhile isspace (rev (dropWhile isspace s)))"

text \<open>
  \<open>str.replace(old, new)\<close>: the occurrences of \<open>old\<close> are found from left to right,
  without overlap. With an empty \<open>old\<close> Python puts \<open>new\<close> around every character.
\<close>

function py_replace :: "string \<Rightarrow> string \<Rightarrow> string \<Rightarrow> string" where
  "py_replace old new [] = (if old = [] then new else [])"
| "py_replace old new (c # cs) =
     (if old = [] then new @ concat (map (\<lambda>x. x # new) (c # cs))
      else if prefix old (c # cs) then new @ py_replace old new (drop (length old) (c # cs))
      else c # py_replace old new cs)"
  by pat_completeness auto
termination
  by (relation "measure (\<lambda>(old, new, s). length s)") auto

text \<open>
  \<open>str.split(sep)\<close> with a one-character separator: every occurrence of the separator
  ends a piece, so the empty string gives one empty piece and two separators in a row
  give an empty piece between them.
\<close>

fun py_split :: "char \<Rightarrow> string \<Rightarrow> string list" where
  "py_split d [] = [[]]"
| "py_split d (c # cs) =
     (if c = d then [] # py_split d cs
      else (case py_split d cs of [] \<Rightarrow> [[c]] | w # ws \<Rightarrow> (c # w) # ws))"

text \<open>\<open>sep.join(xs)\<close>.\<close>

fun py_join :: "string \<Rightarrow> string list \<Rightarrow> string" where
  "py_join sep [] = []"
| "py_join sep [x] = x"
| "py_join sep (x # y # ys) = x @ sep @ py_join sep (y # ys)"

text \<open>\<open>a in b\<close> on strings: \<open>a\<close> occurs in \<open>b\<close> as a contiguous piece.\<close>

fun py_in :: "string \<Rightarrow> string \<Rightarrow> bool" where
  "py_in xs [] = (xs = [])"
| "py_in xs (y # ys) = (prefix xs (y # ys) \<or> py_in xs ys)"

text \<open>\<open>str.lower()\<close>: the upper-case letters of the range and their lower-case forms.\<close>

definition upper_chars :: "char list" where
  "upper_chars = ''ABCDEFGHIJKLMNOPQRSTUVWXYZ'' @
     [CHR 0xC0, CHR 0xC1, CHR 0xC2, CHR 0xC3, CHR 0xC4, CHR 0xC5, CHR 0xC6, CHR 0xC7,
      CHR 0xC8, CHR 0xC9, CHR 0xCA, CHR 0xCB, CHR 0xCC, CHR 0xCD, CHR 0xCE, CHR 0xCF,
      CHR 0xD0, CHR 0xD1, CHR 0xD2, CHR 0xD3, CHR 0xD4, CHR 0xD5, CHR 0xD6,
      CHR 0xD8, CHR 0xD9, CHR 0xDA, CHR 0xDB, CHR 0xDC, CHR 0xDD, CHR 0xDE]"

definition lower_chars :: "char list" where
  "lower_chars = ''abcdefghijklmnopqrstuvwxyz'' @
     [CHR 0xE0, CHR 0xE1, CHR 0xE2, CHR 0xE3, CHR 0xE4, CHR 0xE5, CHR 0xE6, CHR 0xE7,
      CHR 0xE8, CHR 0xE9, CHR 0xEA, CHR 0xEB, CHR 0xEC, CHR 0xED, CHR 0xEE, CHR 0xEF,
      CHR 0xF0, CHR 0xF1, CHR 0xF2, CHR 0xF3, CHR 0xF4, CHR 0xF5, CHR 0xF6,
      CHR 0xF8, CHR 0xF9, CHR 0xFA, CHR 0xFB, CHR 0xFC, CHR 0xFD, CHR 0xFE]"

definition lower_char :: "char \<Rightarrow> char" where
  "lower_char c = (case map_of (zip upper_chars lower_chars) c of Some l \<Rightarrow> l | None \<Rightarrow> c)"

definition py_lower :: "string \<Rightarrow> string" where
  "py_lower s = map lower_char s"

text \<open>
  \<open>str.isnumeric()\<close>: at least one character, and every character numeric. On the range
  these are the ten digits, the superscripts 1, 2, 3 and the three vulgar fractions.
\<close>

definition numeric_chars :: "char list" where
  "numeric_chars = ''0123456789'' @ [CHR 0xB2, CHR 0xB3, CHR 0xB9, CHR 0xBC, CHR 0xBD, CHR 0xBE]"

definition py_isnumeric :: "string \<Rightarrow> bool" where
  "py_isnumeric s \<longleftrightarrow> s \<noteq> [] \<and> list_all (\<lambda>c. c \<in> set numeric_chars) s"

section \<open>Fields, records and the address book\<close>

text \<open>
  Class \<open>Field\<close> wraps one string; \<open>Name\<close> and \<open>Phone\<close> are its subclasses and differ in
  their constructors only. \<open>repr\<close> is \<open>__repr__\<close>, which \<open>str()\<close> and the f-strings use.
\<close>

datatype Field = Field (field_value: string)

type_synonym Name = Field
type_synonym Phone = Field

definition repr :: "Field \<Rightarrow> string" where
  "repr f = field_value f"

definition Name :: "string \<Rightarrow> Name" where
  "Name v = Field v"

definition sanitize_number :: "string \<Rightarrow> string" where
  "sanitize_number number =
     py_replace ''+'' [] (py_replace '')'' [] (py_replace ''('' [] (py_replace ''-'' []
       (py_strip number))))"

definition Phone :: "string \<Rightarrow> Phone" where
  "Phone phone = Field (sanitize_number phone)"

record Record =
  r_name :: Name
  r_phone :: "Phone option"
  r_phones :: "Phone list"

text \<open>\<open>Record.__init__\<close>: a Phone object is always true, so it is appended when given.\<close>

definition Record_init :: "Name \<Rightarrow> Phone option \<Rightarrow> Record" where
  "Record_init n p =
     \<lparr>r_name = n, r_phone = p, r_phones = (case p of None \<Rightarrow> [] | Some ph \<Rightarrow> [ph])\<rparr>"

definition add_phone :: "Record \<Rightarrow> Phone \<Rightarrow> Record" where
  "add_phone r p = r\<lparr>r_phones := r_phones r @ [p]\<rparr>"

text \<open>
  \<open>Record.change\<close>: the loop stops at the first phone whose value is \<open>old_p\<close>;
  \<open>list.remove\<close> then deletes that object, which is the first element equal to it.
  The result pairs the returned value (\<open>None\<close>, or the not-found message) with the
  record after the call.
\<close>

definition Record_change :: "Record \<Rightarrow> string \<Rightarrow> string \<Rightarrow> string option \<times> Record" where
  "Record_change r old_p new_p =
     (case find (\<lambda>p. field_value p = old_p) (r_phones r) of
        Some ph \<Rightarrow> (None, r\<lparr>r_phones := remove1 ph (r_phones r) @ [Phone new_p]\<rparr>)
      | None \<Rightarrow> (Some (''Phone '' @ old_p @ '' was not found in your records''), r))"

text \<open>
  \<open>AddressBook\<close> is a \<open>UserDict\<close>: a dictionary in insertion order, here an association
  list. Storing under a key that is present keeps its place, storing under a new key
  appends.
\<close>

type_synonym AddressBook = "(string \<times> Record) list"

definition add_record :: "Record \<Rightarrow> AddressBook \<Rightarrow> AddressBook" where
  "add_record r b = AList.update (field_value (r_name r)) r b"

definition remove_record :: "Record \<Rightarrow> AddressBook \<Rightarrow> AddressBook" where
  "remove_record r b = AList.delete (field_value (r_name r)) b"

definition format_record :: "Record \<Rightarrow> string" where
  "format_record r = repr (r_name r) @ '' : '' @ py_join '','' (map repr (r_phones r))"

definition show_one_record :: "string \<Rightarrow> AddressBook \<Rightarrow> string" where
  "show_one_record n b =
     (case map_of b n of
        Some r \<Rightarrow> format_record r
      | None \<Rightarrow> ''There is no contact with the name '' @ n)"

definition show_all_records :: "AddressBook \<Rightarrow> string" where
  "show_all_records b =
     (if b \<noteq> [] then py_join [CHR 0x0A] (map (\<lambda>(k, r). format_record r) b)
      else ''Your address book is empty'')"

text \<open>
  \<open>change_record\<close> changes the record object the dictionary holds under the name, and
  drops what \<open>Record.change\<close> returns.
\<close>

definition change_record :: "Name \<Rightarrow> string \<Rightarrow> string \<Rightarrow> AddressBook \<Rightarrow> AddressBook" where
  "change_record username old_n new_n b =
     (case map_of b (field_value username) of
        Some r \<Rightarrow> AList.update (field_value username) (snd (Record_change r old_n new_n)) b
      | None \<Rightarrow> b)"

section \<open>Handlers\<close>

text \<open>
  The handlers work on the global \<open>ADDRESSBOOK\<close> and on the console. The state is the
  book, the lines still to be read by \<open>input\<close>, and what has been written: one entry for
  each \<open>print\<close> and for each prompt of \<open>input\<close>. A handler returns its string or raises;
  the state it leaves is kept in both cases.
\<close>

datatype exn = IndexError | ValueError | KeyError | EOFError | AttributeError

record world =
  book :: AddressBook
  stdin :: "string list"
  stdout :: "string list"

type_synonym handler = "string list \<Rightarrow> world \<Rightarrow> (exn + string) \<times> world"

definition error_handler :: "handler \<Rightarrow> handler" where
  "error_handler func args w =
     (case func args w of
        (Inr s, w') \<Rightarrow> (Inr s, w')
      | (Inl IndexError, w') \<Rightarrow> (Inr ''You didn't provide contact name or phone number'', w')
      | (Inl ValueError, w') \<Rightarrow> (Inr ''Phone number must include digits only'', w')
      | (Inl KeyError, w') \<Rightarrow> (Inr ''Username is not in contact list'', w')
      | (Inl e, w') \<Rightarrow> (Inl e, w'))"

definition exist_prompt :: string where
  "exist_prompt =
     ''Contact with this name already exist, do you want to rewrite it or create new record? '1'/'2'' @
     [CHR 0x27, CHR 0x0A]"

text \<open>
  The \<open>while True\<close> loop of \<open>add\<close>, over the lines of the input: it returns the name and
  the record the handler goes on with. \<open>input\<close> at the end of the input raises
  \<open>EOFError\<close>; answer 1 with no record under the name reads \<open>None.name\<close>.
\<close>

fun add_prompt ::
  "Name \<Rightarrow> Record option \<Rightarrow> AddressBook \<Rightarrow> string list \<Rightarrow> string list \<Rightarrow>
     (exn + Name \<times> Record option) \<times> world" where
  "add_prompt n rec b [] out =
     (Inl EOFError, \<lparr>book = b, stdin = [], stdout = out @ [exist_prompt]\<rparr>)"
| "add_prompt n rec b (user_input # ins) out =
     (if user_input = ''2'' then
        (let n' = Field (field_value n @ ''(1)'')
         in (Inr (n', map_of b (field_value n')),
             \<lparr>book = b, stdin = ins, stdout = out @ [exist_prompt]\<rparr>))
      else if user_input = ''1'' then
        (case rec of
           None \<Rightarrow> (Inl AttributeError, \<lparr>book = b, stdin = ins, stdout = out @ [exist_prompt]\<rparr>)
         | Some r \<Rightarrow>
             (let b' = remove_record r b
              in (Inr (n, map_of b' (field_value n)),
                  \<lparr>book = b', stdin = ins, stdout = out @ [exist_prompt]\<rparr>)))
      else add_prompt n rec b ins (out @ [exist_prompt, ''Please type '1' or '2' to continue'']))"

definition added_message :: "Name \<Rightarrow> Phone \<Rightarrow> string" where
  "added_message n p =
     ''You just added contact '' @ [CHR 0x22] @ repr n @ [CHR 0x22] @ '' with phone '' @
     [CHR 0x22] @ repr p @ [CHR 0x22] @ '' to your list of contacts''"

definition add_body :: handler where
  "add_body args w =
     (case args of
        [] \<Rightarrow> (Inl IndexError, w)
      | [a0] \<Rightarrow> (Inl IndexError, w)
      | a0 # a1 # _ \<Rightarrow>
          (let n = Name a0; p = Phone a1; rec = map_of (book w) (field_value n)
           in (case (if py_in (field_value n) (show_all_records (book w))
                     then add_prompt n rec (book w) (stdin w) (stdout w)
                     else (Inr (n, rec), w)) of
                 (Inl e, w') \<Rightarrow> (Inl e, w')
               | (Inr (n', rec'), w') \<Rightarrow>
                   if \<not> py_isnumeric (field_value p) then (Inl ValueError, w')
                   else (case rec' of
                           Some r \<Rightarrow>
                             (Inr (added_message n' p),
                              w'\<lparr>book := AList.update (field_value n') (add_phone r p) (book w')\<rparr>)
                         | None \<Rightarrow>
                             (Inr (added_message n' p),
                              w'\<lparr>book := add_record (Record_init n' (Some p)) (book w')\<rparr>)))))"

definition add :: handler where
  "add = error_handler add_body"

definition hello_body :: handler where
  "hello_body args w = (Inr ''How can I help you?'', w)"

definition hello :: handler where
  "hello = error_handler hello_body"

definition show_all_body :: handler where
  "show_all_body args w = (Inr (show_all_records (book w)), w)"

definition show_all :: handler where
  "show_all = error_handler show_all_body"

definition changed_message :: "Name \<Rightarrow> string \<Rightarrow> string" where
  "changed_message n new_ph =
     ''You just changed number for contact '' @ [CHR 0x27] @ repr n @ [CHR 0x27] @
     ''. New number is '' @ [CHR 0x27] @ new_ph @ [CHR 0x27]"

definition change_body :: handler where
  "change_body args w =
     (case args of
        a0 # old_ph # new_ph # _ \<Rightarrow>
          (let n = Name a0
           in if \<not> py_isnumeric new_ph then (Inl ValueError, w)
              else (Inr (changed_message n new_ph),
                    w\<lparr>book := change_record n old_ph new_ph (book w)\<rparr>))
      | _ \<Rightarrow> (Inl IndexError, w))"

definition change :: handler where
  "change = error_handler change_body"

definition phone_body :: handler where
  "phone_body args w =
     (case args of
        [] \<Rightarrow> (Inl IndexError, w)
      | a0 # _ \<Rightarrow> (Inr (show_one_record a0 (book w)), w))"

definition phone :: handler where
  "phone = error_handler phone_body"

definition HELP_INSTRUCTIONS :: string where
  "HELP_INSTRUCTIONS = py_join [CHR 0x0A]
     [''This contact bot save your contacts'',
      ''    Global commands:'',
      ''      'add' - add new contact. Input username and phone'',
      ''    Example: add User_name 095-xxx-xx-xx'',
      ''      'change' - change users old phone to new phone. Input username, old phone and new phone'',
      ''    Example: change User_name 095-xxx-xx-xx 050-xxx-xx-xx'',
      ''      'phone' - show contacts of input user. Input username'',
      ''    Example: phone User_name'',
      ''      'delete' - removes contact from your address book'',
      ''    Example: delete User_name'',
      ''      'show all' - show all contacts'',
      ''    Example: show all'',
      ''      'exit/'.'/'bye'/'close' - exit bot'',
      ''    Example: exit'']"

definition helper_body :: handler where
  "helper_body args w = (Inr HELP_INSTRUCTIONS, w)"

definition helper :: handler where
  "helper = error_handler helper_body"

definition deleted_message :: "Name \<Rightarrow> string" where
  "deleted_message n = repr n @ '' was deleted from your contact list''"

definition delete_contact_body :: handler where
  "delete_contact_body args w =
     (case args of
        [] \<Rightarrow> (Inl IndexError, w)
      | a0 # _ \<Rightarrow>
          (let n = Name a0; rec = Record_init n None
           in if field_value n \<noteq> []
              then (Inr (deleted_message n), w\<lparr>book := remove_record rec (book w)\<rparr>)
              else (Inl IndexError, w)))"

definition delete_contact :: handler where
  "delete_contact = error_handler delete_contact_body"

section \<open>Command parser and main loop\<close>

text \<open>The dictionary \<open>COMMANDS\<close>, in the order of its items.\<close>

definition COMMANDS :: "(handler \<times> string) list" where
  "COMMANDS =
     [(add, ''add''), (hello, ''hello''), (show_all, ''show all''), (change, ''change''),
      (phone, ''phone''), (helper, ''help''), (delete_contact, ''delete'')]"

text \<open>The \<open>for\<close> loop of \<open>command_parser\<close>; \<open>None\<close> stands for the pair \<open>(None, None)\<close>.\<close>

fun parser_loop :: "(handler \<times> string) list \<Rightarrow> string \<Rightarrow> (handler \<times> string list) option" where
  "parser_loop [] user_input = None"
| "parser_loop ((command, key_word) # rest) user_input =
     (if prefix key_word user_input
      then Some (command, py_split (CHR 0x20) (py_strip (py_replace key_word [] user_input)))
      else parser_loop rest user_input)"

definition command_parser :: "string \<Rightarrow> (handler \<times> string list) option" where
  "command_parser user_input = parser_loop COMMANDS user_input"

definition end_words :: "string list" where
  "end_words = [''.'', ''close'', ''bye'', ''exit'']"

datatype status = Running | Terminated | Crashed exn

text \<open>
  One pass through the body of the \<open>while True\<close> loop of \<open>main\<close>. \<open>Terminated\<close> is the
  \<open>break\<close>; an exception that \<open>error_handler\<close> does not catch ends the program.
\<close>

definition main_iter :: "world \<Rightarrow> status \<times> world" where
  "main_iter w =
     (case stdin w of
        [] \<Rightarrow> (Crashed EOFError, w\<lparr>stdout := stdout w @ [''>>>'']\<rparr>)
      | user_input # ins \<Rightarrow>
          (let w1 = w\<lparr>stdin := ins, stdout := stdout w @ [''>>>'']\<rparr>
           in if py_lower user_input \<in> set end_words
              then (Terminated, w1\<lparr>stdout := stdout w1 @ [''Goodbye and good luck'']\<rparr>)
              else (case command_parser (py_lower user_input) of
                      None \<Rightarrow> (Running, w1\<lparr>stdout := stdout w1 @ [''Sorry, unknown command'']\<rparr>)
                    | Some (command, data) \<Rightarrow>
                        (case command data w1 of
                           (Inl e, w2) \<Rightarrow> (Crashed e, w2)
                         | (Inr s, w2) \<Rightarrow> (Running, w2\<lparr>stdout := stdout w2 @ [s]\<rparr>)))))"

section \<open>Notions for the statements\<close>

text \<open>
  Splitting at whitespace, as \<open>str.split()\<close> without an argument does: runs of
  whitespace separate the words and no word is empty. \<open>command_parser\<close> does not call
  it; it is kept to compare the parser's arguments with.
\<close>

fun words_from :: "string \<Rightarrow> string \<Rightarrow> string list" where
  "words_from cur [] = (if cur = [] then [] else [cur])"
| "words_from cur (c # cs) =
     (if isspace c then (if cur = [] then words_from [] cs else cur # words_from [] cs)
      else words_from (cur @ [c]) cs)"

definition py_split_whitespace :: "string \<Rightarrow> string list" where
  "py_split_whitespace s = words_from [] s"

text \<open>
  The invariant of the book: no key occurs twice, and every record is stored under the
  value of its own name.
\<close>

definition book_inv :: "AddressBook \<Rightarrow> bool" where
  "book_inv b \<longleftrightarrow> distinct (map fst b) \<and> (\<forall>(k, r) \<in> set b. field_value (r_name r) = k)"

text \<open>
  \<open>main\<close> prints the list of commands and enters the loop; \<open>ADDRESSBOOK\<close> is empty
  then. The states of a session are the ones reached from there by passes through the
  loop.
\<close>

definition banner :: string where
  "banner =
     ''Here's a list of available commands: 'Hello', 'Add', 'Change', 'Phone', 'Show all', 'Delete', 'Help', 'Exit'' @
     [CHR 0x27]"

definition main_start :: "string list \<Rightarrow> string list \<Rightarrow> world" where
  "main_start ins out = \<lparr>book = [], stdin = ins, stdout = out @ [banner]\<rparr>"

inductive repl_reachable :: "world \<Rightarrow> bool" where
  start: "repl_reachable (main_start ins out)"
| step: "repl_reachable w \<Longrightarrow> main_iter w = (Running, w') \<Longrightarrow> repl_reachable w'"

text \<open>
  The books that calls of the handlers, with any arguments and any input, produce from
  the empty book.
\<close>

inductive handler_reachable :: "AddressBook \<Rightarrow> bool" where
  empty: "handler_reachable []"
| call: "handler_reachable (book w) \<Longrightarrow> (c, k) \<in> set COMMANDS \<Longrightarrow>
         handler_reachable (book (snd (c args w)))"

text \<open>Every record whose key does not end in \<open>(1)\<close> holds exactly one phone.\<close>

definition single_phone :: "AddressBook \<Rightarrow> bool" where
  "single_phone b \<longleftrightarrow> (\<forall>(k, r) \<in> set b. \<not> suffix ''(1)'' k \<longrightarrow> length (r_phones r) = 1)"

section \<open>Evaluation and library facts\<close>

lemmas char_class_defs = isspace_def whitespace_chars_def numeric_chars_def py_isnumeric_def

lemmas lower_defs = py_lower_def lower_char_def upper_chars_def lower_chars_def

lemma delete_absent: "map_of b k = None \<Longrightarrow> AList.delete k b = b"
  by (induction b) (auto split: if_splits)

lemma py_replace_char: "py_replace [c] [] s = filter (\<lambda>x. x \<noteq> c) s"
  by (induction s) auto

lemma sanitize_number_filter:
  "sanitize_number s = filter (\<lambda>c. c \<notin> set ''-()+'') (py_strip s)"
  by (simp add: sanitize_number_def py_replace_char conj_commute conj_left_commute)

lemma sanitize_number_removes: "c \<in> set ''-()+'' \<Longrightarrow> c \<notin> set (sanitize_number s)"
  by (simp add: sanitize_number_filter)

section \<open>The change handler\<close>

lemma change_numeric:
  "py_isnumeric new_ph \<Longrightarrow>
   change (n # old_ph # new_ph # rest) w =
     (Inr (''You just changed number for contact '' @ [CHR 0x27] @ n @ [CHR 0x27] @
           ''. New number is '' @ [CHR 0x27] @ new_ph @ [CHR 0x27]),
      w\<lparr>book := change_record (Name n) old_ph new_ph (book w)\<rparr>)"
  by (simp add: change_def error_handler_def change_body_def changed_message_def repr_def Name_def)

lemma change_record_absent:
  "map_of b n = None \<Longrightarrow> change_record (Name n) old_ph new_ph b = b"
  by (simp add: change_record_def Name_def)

lemma change_record_not_found:
  "map_of b n = Some r \<Longrightarrow> find (\<lambda>p. field_value p = old_ph) (r_phones r) = None \<Longrightarrow>
   change_record (Name n) old_ph new_ph b = b"
  by (simp add: change_record_def Name_def Record_change_def update_triv)

text \<open>
  C1. Called with a name, an old phone and a numeric new phone, \<open>change\<close> returns the
  confirmation naming the contact and the new number, whatever the book holds. With no
  record under the name, and with a record in which \<open>Record.change\<close> finds no phone of
  the old value and returns its not-found message, the state is left as it was and the
  answer is the same confirmation.
\<close>

theorem change_reports_success:
  assumes "py_isnumeric new_ph"
  shows "fst (change (n # old_ph # new_ph # rest) w) =
           Inr (''You just changed number for contact '' @ [CHR 0x27] @ n @ [CHR 0x27] @
                ''. New number is '' @ [CHR 0x27] @ new_ph @ [CHR 0x27])
         \<and> (map_of (book w) n = None \<longrightarrow>
              snd (change (n # old_ph # new_ph # rest) w) = w)
         \<and> (\<forall>r. map_of (book w) n = Some r \<and>
                  find (\<lambda>p. field_value p = old_ph) (r_phones r) = None \<longrightarrow>
                fst (Record_change r old_ph new_ph) =
                  Some (''Phone '' @ old_ph @ '' was not found in your records'')
                \<and> snd (change (n # old_ph # new_ph # rest) w) = w)"
  using assms
  by (simp add: change_numeric change_record_absent change_record_not_found Record_change_def)

theorem change_reports_success_witness:
  "py_isnumeric ''555''
   \<and> map_of [(''ann'', Record_init (Name ''ann'') (Some (Phone ''111'')))] ''bob'' = None
   \<and> change [''bob'', ''111'', ''555'']
        \<lparr>book = [(''ann'', Record_init (Name ''ann'') (Some (Phone ''111'')))],
         stdin = [], stdout = []\<rparr> =
       (Inr (''You just changed number for contact 'bob'. New number is '555'' @ [CHR 0x27]),
        \<lparr>book = [(''ann'', Record_init (Name ''ann'') (Some (Phone ''111'')))],
         stdin = [], stdout = []\<rparr>)"
proof -
  have h: "py_isnumeric ''555''"
    by (simp add: char_class_defs)
  have m: "map_of [(''ann'', Record_init (Name ''ann'') (Some (Phone ''111'')))] ''bob'' = None"
    by simp
  from change_reports_success [OF h, of "''bob''" "''111''" "[]"
      "\<lparr>book = [(''ann'', Record_init (Name ''ann'') (Some (Phone ''111'')))],
        stdin = [], stdout = []\<rparr>"] h m
  show ?thesis
    by (simp add: prod_eq_iff)
qed

text \<open>
  When the new phone fails \<open>isnumeric\<close>, \<open>change\<close> returns the invalid-phone-format
  message and leaves the whole state, the book with every record and phone sequence in
  it, as it was.
\<close>

lemma change_rejects_non_numeric:
  "\<not> py_isnumeric new_ph \<Longrightarrow>
   change (n # old_ph # new_ph # rest) w = (Inr ''Phone number must include digits only'', w)"
  by (simp add: change_def error_handler_def change_body_def)

section \<open>The delete handler\<close>

text \<open>
  C8. With a non-empty name, \<open>delete_contact\<close> returns the deletion confirmation and
  the book without the entry of that name: the name is then not found (also by
  \<open>phone\<close>), every other name keeps its record, and the book is unchanged when the
  name had no record. With an empty name it returns the missing-argument message and
  leaves the state as it was.
\<close>

theorem delete_contact_removes:
  "delete_contact (n # rest) w =
     (if n \<noteq> [] then (Inr (n @ '' was deleted from your contact list''),
                        w\<lparr>book := AList.delete n (book w)\<rparr>)
      else (Inr ''You didn't provide contact name or phone number'', w))
   \<and> map_of (AList.delete n (book w)) n = None
   \<and> (\<forall>k. k \<noteq> n \<longrightarrow> map_of (AList.delete n (book w)) k = map_of (book w) k)
   \<and> (map_of (book w) n = None \<longrightarrow> AList.delete n (book w) = book w)
   \<and> (n \<noteq> [] \<longrightarrow> fst (phone [n] (snd (delete_contact (n # rest) w))) =
         Inr (''There is no contact with the name '' @ n))"
  by (simp add: delete_contact_def error_handler_def delete_contact_body_def deleted_message_def
      repr_def Name_def remove_record_def Record_init_def delete_absent delete_conv'
      phone_def phone_body_def show_one_record_def)

theorem delete_contact_removes_witness:
  "delete_contact [''ann'']
      \<lparr>book = [(''ann'', Record_init (Name ''ann'') (Some (Phone ''111'')))],
       stdin = [], stdout = []\<rparr> =
     (Inr ''ann was deleted from your contact list'', \<lparr>book = [], stdin = [], stdout = []\<rparr>)
   \<and> fst (phone [''ann''] (snd (delete_contact [''ann'']
        \<lparr>book = [(''ann'', Record_init (Name ''ann'') (Some (Phone ''111'')))],
         stdin = [], stdout = []\<rparr>))) = Inr ''There is no contact with the name ann''
   \<and> delete_contact ['''']
        \<lparr>book = [(''ann'', Record_init (Name ''ann'') (Some (Phone ''111'')))],
         stdin = [], stdout = []\<rparr> =
       (Inr ''You didn't provide contact name or phone number'',
        \<lparr>book = [(''ann'', Record_init (Name ''ann'') (Some (Phone ''111'')))],
         stdin = [], stdout = []\<rparr>)"
  using
    delete_contact_removes [of "''ann''" "[]"
      "\<lparr>book = [(''ann'', Record_init (Name ''ann'') (Some (Phone ''111'')))],
        stdin = [], stdout = []\<rparr>"]
    delete_contact_removes [of "''''" "[]"
      "\<lparr>book = [(''ann'', Record_init (Name ''ann'') (Some (Phone ''111'')))],
        stdin = [], stdout = []\<rparr>"]
  by (simp add: phone_def error_handler_def phone_body_def show_one_record_def)

section \<open>Sanitizing a phone number\<close>

text \<open>
  C3. \<open>sanitize_number\<close> strips the surrounding whitespace first and removes the four
  characters afterwards, so whitespace that stood behind a removed character stays at
  the front of the result: \<open>- 1\<close> gives \<open> 1\<close>, which has leading whitespace and which a
  second call turns into \<open>1\<close>. The same happens with a tab, in an argument the parser can
  pass on.
\<close>

theorem sanitize_number_keeps_exposed_whitespace:
  "sanitize_number ''- 1'' = '' 1''
   \<and> sanitize_number (sanitize_number ''- 1'') = ''1''
   \<and> sanitize_number (''-'' @ [CHR 0x09] @ ''1'') = [CHR 0x09] @ ''1''"
  by (simp add: sanitize_number_def py_strip_def isspace_def whitespace_chars_def)

section \<open>The main loop\<close>

lemma lower_Bye: "py_lower ''Bye'' = ''bye''"
  by (simp add: lower_defs)

lemma lower_bye_now: "py_lower ''bye now'' = ''bye now''"
  by (simp add: lower_defs)

lemma lower_bye_space: "py_lower ''bye '' = ''bye ''"
  by (simp add: lower_defs)

lemma main_iter_cons:
  "main_iter \<lparr>book = b, stdin = user_input # ins, stdout = out\<rparr> =
     (if py_lower user_input \<in> set end_words
      then (Terminated,
            \<lparr>book = b, stdin = ins, stdout = out @ [''>>>'', ''Goodbye and good luck'']\<rparr>)
      else (case command_parser (py_lower user_input) of
              None \<Rightarrow>
                (Running,
                 \<lparr>book = b, stdin = ins, stdout = out @ [''>>>'', ''Sorry, unknown command'']\<rparr>)
            | Some (command, data) \<Rightarrow>
                (case command data \<lparr>book = b, stdin = ins, stdout = out @ [''>>>'']\<rparr> of
                   (Inl e, w2) \<Rightarrow> (Crashed e, w2)
                 | (Inr s, w2) \<Rightarrow> (Running, w2\<lparr>stdout := stdout w2 @ [s]\<rparr>))))"
  by (simp add: main_iter_def Let_def split: option.splits)

text \<open>
  C5, as the code has it. The loop reaches the \<open>break\<close> exactly when the line read, in
  lower case and as it was typed (nothing is trimmed), is one of the four exit words.
  \<open>Bye\<close> ends the loop; \<open>bye now\<close> does not, and is answered as an unknown command.
\<close>

theorem main_iter_exit:
  "(fst (main_iter \<lparr>book = b, stdin = user_input # ins, stdout = out\<rparr>) = Terminated
      \<longleftrightarrow> py_lower user_input \<in> set end_words)
   \<and> main_iter \<lparr>book = b, stdin = ''Bye'' # ins, stdout = out\<rparr> =
       (Terminated,
        \<lparr>book = b, stdin = ins, stdout = out @ [''>>>'', ''Goodbye and good luck'']\<rparr>)
   \<and> main_iter \<lparr>book = b, stdin = ''bye now'' # ins, stdout = out\<rparr> =
       (Running,
        \<lparr>book = b, stdin = ins, stdout = out @ [''>>>'', ''Sorry, unknown command'']\<rparr>)"
proof -
  have a: "fst (main_iter \<lparr>book = b, stdin = user_input # ins, stdout = out\<rparr>) = Terminated
      \<longleftrightarrow> py_lower user_input \<in> set end_words"
    by (simp add: main_iter_cons split: option.splits prod.splits sum.splits)
  have b: "main_iter \<lparr>book = b, stdin = ''Bye'' # ins, stdout = out\<rparr> =
       (Terminated,
        \<lparr>book = b, stdin = ins, stdout = out @ [''>>>'', ''Goodbye and good luck'']\<rparr>)"
    by (simp add: main_iter_cons lower_Bye end_words_def)
  have c: "main_iter \<lparr>book = b, stdin = ''bye now'' # ins, stdout = out\<rparr> =
       (Running,
        \<lparr>book = b, stdin = ins, stdout = out @ [''>>>'', ''Sorry, unknown command'']\<rparr>)"
    by (simp add: main_iter_cons lower_bye_now end_words_def command_parser_def COMMANDS_def)
  from a b c show ?thesis by blast
qed

theorem main_iter_exit_witness:
  "py_lower ''EXIT'' \<in> set end_words \<and>
   fst (main_iter \<lparr>book = [], stdin = [''EXIT'', ''hello''], stdout = []\<rparr>) = Terminated"
  using main_iter_exit [of "[]" "''EXIT''" "[''hello'']" "[]"]
  by (simp add: lower_defs end_words_def)

text \<open>
  C5 as stated compares the trimmed line with the exit words. The line \<open>bye\<close> followed
  by one space is an exit word after trimming, and the loop goes on: the line is
  answered as an unknown command.
\<close>

theorem main_iter_trim_counterexample:
  "py_strip (py_lower ''bye '') \<in> set end_words \<and>
   main_iter \<lparr>book = [], stdin = [''bye ''], stdout = []\<rparr> =
     (Running, \<lparr>book = [], stdin = [], stdout = [''>>>'', ''Sorry, unknown command'']\<rparr>)"
  by (simp add: main_iter_cons lower_bye_space end_words_def command_parser_def COMMANDS_def
      py_strip_def isspace_def whitespace_chars_def)

section \<open>The command parser\<close>

lemma py_in_sublist: "py_in xs ys = sublist xs ys"
  by (induction ys) (auto simp: sublist_Cons_right)

lemma parser_loop_first:
  "i < length cs \<Longrightarrow> cs ! i = (command, key_word) \<Longrightarrow> prefix key_word s \<Longrightarrow>
   \<forall>j<i. \<not> prefix (snd (cs ! j)) s \<Longrightarrow>
   parser_loop cs s =
     Some (command, py_split (CHR 0x20) (py_strip (py_replace key_word [] s)))"
proof (induction cs arbitrary: i)
  case Nil
  then show ?case by simp
next
  case (Cons p cs)
  obtain c k where p: "p = (c, k)" by (cases p)
  show ?case
  proof (cases i)
    case 0
    with Cons.prems p show ?thesis by simp
  next
    case (Suc i')
    from Cons.prems(4) Suc have "\<not> prefix k s"
      using p by (metis nth_Cons_0 snd_conv zero_less_Suc)
    moreover from Cons.prems(4) Suc have "\<forall>j<i'. \<not> prefix (snd (cs ! j)) s"
      by (metis Suc_less_eq nth_Cons_Suc)
    ultimately show ?thesis
      using Cons.IH [of i'] Cons.prems(1-3) Suc p by simp
  qed
qed

lemma parser_loop_None:
  "parser_loop cs s = None \<longleftrightarrow> (\<forall>p \<in> set cs. \<not> prefix (snd p) s)"
  by (induction cs s rule: parser_loop.induct) auto

lemma parser_loop_Some:
  "parser_loop cs s = Some (c, args) \<Longrightarrow>
   \<exists>k. (c, k) \<in> set cs \<and> prefix k s \<and>
       args = py_split (CHR 0x20) (py_strip (py_replace k [] s))"
  by (induction cs s rule: parser_loop.induct) (auto split: if_splits)

lemma py_replace_absent:
  "old \<noteq> [] \<Longrightarrow> \<not> sublist old s \<Longrightarrow> py_replace old new s = s"
proof (induction s)
  case Nil
  then show ?case by simp
next
  case (Cons c cs)
  from Cons.prems have "\<not> prefix old (c # cs)"
    using prefix_imp_sublist by blast
  moreover from Cons.prems have "\<not> sublist old cs"
    by (simp add: sublist_Cons_right)
  ultimately show ?case using Cons by simp
qed

lemma py_replace_prefix:
  "old \<noteq> [] \<Longrightarrow> py_replace old new (old @ rest) = new @ py_replace old new rest"
  by (cases old) simp_all

lemma py_split_not_Nil: "py_split d s \<noteq> []"
  by (induction s) (auto split: list.splits)

lemma py_join_Cons: "ws \<noteq> [] \<Longrightarrow> py_join sep (w # ws) = w @ sep @ py_join sep ws"
  by (cases ws) simp_all

lemma py_join_split: "py_join [d] (py_split d s) = s"
proof (induction s)
  case Nil
  then show ?case by simp
next
  case (Cons c cs)
  show ?case
  proof (cases "c = d")
    case True
    with Cons show ?thesis by (simp add: py_join_Cons py_split_not_Nil)
  next
    case False
    obtain w ws where s: "py_split d cs = w # ws"
      using py_split_not_Nil [of d cs] by (cases "py_split d cs") auto
    with Cons False show ?thesis by (cases ws) simp_all
  qed
qed

lemma py_split_no_sep: "w \<in> set (py_split d s) \<Longrightarrow> d \<notin> set w"
  by (induction s arbitrary: w) (auto split: if_splits list.splits)

lemma py_split_hd: "s \<noteq> [] \<Longrightarrow> hd s \<noteq> d \<Longrightarrow> hd (py_split d s) \<noteq> []"
  by (cases s) (auto split: list.splits)

lemma dropWhile_snoc_keep: "\<not> P x \<Longrightarrow> dropWhile P (xs @ [x]) = dropWhile P xs @ [x]"
  by (induction xs) auto

lemma py_strip_hd: "py_strip s \<noteq> [] \<Longrightarrow> \<not> isspace (hd (py_strip s))"
proof -
  assume ne: "py_strip s \<noteq> []"
  have d: "dropWhile isspace s \<noteq> []"
  proof
    assume "dropWhile isspace s = []"
    then have "py_strip s = []" by (simp only: py_strip_def dropWhile.simps rev.simps)
    with ne show False by simp
  qed
  then obtain x xs where x: "dropWhile isspace s = x # xs"
    by (cases "dropWhile isspace s") auto
  then have nx: "\<not> isspace x"
    using hd_dropWhile [of isspace s] d by auto
  have "rev (dropWhile isspace s) = rev xs @ [x]" using x by simp
  then have "dropWhile isspace (rev (dropWhile isspace s)) = dropWhile isspace (rev xs) @ [x]"
    using nx by (simp add: dropWhile_snoc_keep)
  then have "py_strip s = x # rev (dropWhile isspace (rev xs))"
    by (simp add: py_strip_def)
  with nx show ?thesis by simp
qed

lemma space_isspace: "isspace (CHR 0x20)"
  by (simp add: isspace_def whitespace_chars_def)

lemma parser_args_head:
  "args = py_split (CHR 0x20) (py_strip s) \<Longrightarrow> args = [[]] \<or> hd args \<noteq> []"
proof (cases "py_strip s = []")
  case True
  assume "args = py_split (CHR 0x20) (py_strip s)"
  with True show ?thesis by simp
next
  case False
  assume a: "args = py_split (CHR 0x20) (py_strip s)"
  from False have "hd (py_strip s) \<noteq> CHR 0x20"
    using py_strip_hd space_isspace by metis
  with False a show ?thesis by (simp add: py_split_hd)
qed

lemma keyword_nonempty: "(c, k) \<in> set COMMANDS \<Longrightarrow> k \<noteq> []"
  by (auto simp: COMMANDS_def)

lemmas parser_eval_defs =
  command_parser_def COMMANDS_def py_strip_def isspace_def whitespace_chars_def

text \<open>
  C4, as the code has it. The keywords are tried in the order add, hello, show all,
  change, phone, help, delete, and for every line the first one that starts the line
  gives the command; no keyword starting the line gives no command. For a line in which
  that keyword occurs at the start only, the arguments are the pieces between the single
  space characters of what follows the keyword, stripped of surrounding whitespace:
  joined by single spaces they give that text back, and no argument contains a space.
  The line \<open>show all contacts please\<close> gives \<open>show all\<close> with \<open>contacts\<close> and
  \<open>please\<close>.
\<close>

theorem command_parser_first_keyword:
  assumes "i < length COMMANDS" and "COMMANDS ! i = (command, key_word)"
    and "prefix key_word line"
    and "\<forall>j<i. \<not> prefix (snd (COMMANDS ! j)) line"
  shows "map snd COMMANDS =
           [''add'', ''hello'', ''show all'', ''change'', ''phone'', ''help'', ''delete'']
         \<and> map_option fst (command_parser line) = Some command
         \<and> (\<not> sublist key_word (drop (length key_word) line) \<longrightarrow>
              command_parser line =
                Some (command, py_split (CHR 0x20) (py_strip (drop (length key_word) line)))
              \<and> py_join '' '' (py_split (CHR 0x20) (py_strip (drop (length key_word) line))) =
                  py_strip (drop (length key_word) line)
              \<and> (\<forall>a \<in> set (py_split (CHR 0x20) (py_strip (drop (length key_word) line))).
                    CHR 0x20 \<notin> set a))
         \<and> (command_parser l = None \<longleftrightarrow> (\<forall>p \<in> set COMMANDS. \<not> prefix (snd p) l))
         \<and> command_parser ''show all contacts please'' =
             Some (show_all, [''contacts'', ''please''])"
proof -
  let ?rest = "drop (length key_word) line"
  have order: "map snd COMMANDS =
      [''add'', ''hello'', ''show all'', ''change'', ''phone'', ''help'', ''delete'']"
    by (simp add: COMMANDS_def)
  from assms(1,2) have "(command, key_word) \<in> set COMMANDS"
    by (metis nth_mem)
  then have ne: "key_word \<noteq> []"
    by (rule keyword_nonempty)
  from assms(3) have line: "line = key_word @ ?rest"
    by (auto simp: prefix_def)
  have sel: "command_parser line =
      Some (command, py_split (CHR 0x20) (py_strip (py_replace key_word [] line)))"
    unfolding command_parser_def
    using assms by (intro parser_loop_first) simp_all
  then have first: "map_option fst (command_parser line) = Some command"
    by simp
  have args: "command_parser line = Some (command, py_split (CHR 0x20) (py_strip ?rest))"
    if "\<not> sublist key_word ?rest"
  proof -
    have "py_replace key_word [] (key_word @ ?rest) = ?rest"
      using ne that by (simp add: py_replace_prefix py_replace_absent)
    with sel line show ?thesis by simp
  qed
  have join: "py_join '' '' (py_split (CHR 0x20) (py_strip ?rest)) = py_strip ?rest"
    by (rule py_join_split)
  have pieces: "\<forall>a \<in> set (py_split (CHR 0x20) (py_strip ?rest)). CHR 0x20 \<notin> set a"
    using py_split_no_sep by blast
  have none: "command_parser l = None \<longleftrightarrow> (\<forall>p \<in> set COMMANDS. \<not> prefix (snd p) l)"
    by (simp add: command_parser_def parser_loop_None)
  have example: "command_parser ''show all contacts please'' =
      Some (show_all, [''contacts'', ''please''])"
    by (simp add: parser_eval_defs)
  from order first args join pieces none example show ?thesis
    by blast
qed

theorem command_parser_first_keyword_witness:
  "2 < length COMMANDS \<and> COMMANDS ! 2 = (show_all, ''show all'')
   \<and> prefix ''show all'' ''show all contacts please''
   \<and> \<not> prefix (snd (COMMANDS ! 0)) ''show all contacts please''
   \<and> \<not> prefix (snd (COMMANDS ! 1)) ''show all contacts please''
   \<and> \<not> sublist ''show all'' (drop (length ''show all'') ''show all contacts please'')
   \<and> map_option fst (command_parser ''show all contacts please'') = Some show_all
   \<and> command_parser ''show all contacts please'' =
       Some (show_all, py_split (CHR 0x20)
               (py_strip (drop (length ''show all'') ''show all contacts please'')))
   \<and> py_split (CHR 0x20) (py_strip (drop (length ''show all'') ''show all contacts please'')) =
       [''contacts'', ''please'']
   \<and> 0 < length COMMANDS \<and> COMMANDS ! 0 = (add, ''add'')
   \<and> prefix ''add'' ''add maddie 123''
   \<and> sublist ''add'' (drop (length ''add'') ''add maddie 123'')
   \<and> map_option fst (command_parser ''add maddie 123'') = Some add"
proof -
  have h1: "2 < length COMMANDS" and h2: "COMMANDS ! 2 = (show_all, ''show all'')"
    and g1: "0 < length COMMANDS" and g2: "COMMANDS ! 0 = (add, ''add'')"
    by (simp_all add: COMMANDS_def)
  have h3: "prefix ''show all'' ''show all contacts please''"
    and g3: "prefix ''add'' ''add maddie 123''"
    by simp_all
  have h4: "\<forall>j<2. \<not> prefix (snd (COMMANDS ! j)) ''show all contacts please''"
    by (simp add: COMMANDS_def less_2_cases_iff)
  have g4: "\<forall>j<0. \<not> prefix (snd (COMMANDS ! j)) ''add maddie 123''"
    by simp
  have h5: "\<not> prefix (snd (COMMANDS ! 0)) ''show all contacts please''"
    and h6: "\<not> prefix (snd (COMMANDS ! 1)) ''show all contacts please''"
    by (simp_all add: COMMANDS_def)
  have h7: "\<not> sublist ''show all'' (drop (length ''show all'') ''show all contacts please'')"
    by (simp add: py_in_sublist [symmetric])
  have g7: "sublist ''add'' (drop (length ''add'') ''add maddie 123'')"
    by (simp add: py_in_sublist [symmetric])
  have e: "py_split (CHR 0x20)
      (py_strip (drop (length ''show all'') ''show all contacts please'')) =
       [''contacts'', ''please'']"
    by (simp add: py_strip_def isspace_def whitespace_chars_def)
  note t1 = command_parser_first_keyword [OF h1 h2 h3 h4]
  note t2 = command_parser_first_keyword [OF g1 g2 g3 g4]
  from t1 have a: "map_option fst (command_parser ''show all contacts please'') = Some show_all"
    by blast
  from t1 h7 have b: "command_parser ''show all contacts please'' =
       Some (show_all, py_split (CHR 0x20)
               (py_strip (drop (length ''show all'') ''show all contacts please'')))"
    by blast
  from t2 have c: "map_option fst (command_parser ''add maddie 123'') = Some add"
    by blast
  from h1 h2 h3 h5 h6 h7 a b e g1 g2 g3 g7 c show ?thesis
    by blast
qed

text \<open>
  C4 as stated has the rest of the line split at whitespace. With two spaces between
  the name and the phone the parser returns an empty argument between them, where
  splitting at whitespace gives the two words.
\<close>

theorem command_parser_split_counterexample:
  "command_parser ''add bob  123'' = Some (add, [''bob'', '''', ''123''])
   \<and> py_split_whitespace (drop (length ''add'') ''add bob  123'') = [''bob'', ''123'']"
  by (simp add: parser_eval_defs py_split_whitespace_def)

text \<open>
  \<open>str.replace\<close> removes the keyword wherever it occurs, so a keyword inside an argument
  is cut out of it.
\<close>

lemma command_parser_removes_every_occurrence:
  "command_parser ''add maddie 123'' = Some (add, [''mie'', ''123''])"
  by (simp add: parser_eval_defs)

section \<open>The invariant of the book\<close>

lemma snd_error_handler: "snd (error_handler f args w) = snd (f args w)"
  by (simp add: error_handler_def split: prod.splits sum.splits exn.splits)

lemma add_prompt_result:
  "add_prompt n rec b ins out = (res, w') \<Longrightarrow>
     (book w' = b \<and>
        (res = Inl EOFError \<or> (res = Inl AttributeError \<and> rec = None) \<or>
         res = Inr (Field (field_value n @ ''(1)''), map_of b (field_value n @ ''(1)''))))
     \<or> (\<exists>r. rec = Some r \<and> book w' = remove_record r b \<and>
            res = Inr (n, map_of (remove_record r b) (field_value n)))"
  by (induction ins arbitrary: out) (auto simp: Let_def split: if_splits option.splits)

lemma add_body_inv:
  assumes P: "P (book w)"
    and del: "\<And>r b. P b \<Longrightarrow> P (remove_record r b)"
    and upd: "\<And>b k r p. P b \<Longrightarrow> map_of b k = Some r \<Longrightarrow> P (AList.update k (add_phone r p) b)"
    and new: "\<And>b k p. P b \<Longrightarrow> 2 \<le> length args \<Longrightarrow> k = hd args \<or> k = hd args @ ''(1)'' \<Longrightarrow>
                P (add_record (Record_init (Field k) (Some p)) b)"
  shows "P (book (snd (add_body args w)))"
proof (cases args)
  case Nil
  with P show ?thesis by (simp add: add_body_def)
next
  case (Cons a0 as)
  show ?thesis
  proof (cases as)
    case Nil
    with Cons P show ?thesis by (simp add: add_body_def)
  next
    case (Cons a1 rest)
    note args = \<open>args = a0 # as\<close> Cons
    have len: "2 \<le> length args" and hd: "hd args = a0" using args by simp_all
    let ?n = "Name a0" and ?p = "Phone a1"
    let ?rec = "map_of (book w) (field_value ?n)"
    let ?pr = "if py_in (field_value ?n) (show_all_records (book w))
        then add_prompt ?n ?rec (book w) (stdin w) (stdout w)
        else (Inr (?n, ?rec), w)"
    obtain res w1 where pr: "?pr = (res, w1)"
      by (cases ?pr) auto
    have w1: "P (book w1)"
      and res: "\<And>n' rec'. res = Inr (n', rec') \<Longrightarrow>
                 (field_value n' = a0 \<or> field_value n' = a0 @ ''(1)'') \<and>
                 rec' = map_of (book w1) (field_value n')"
    proof -
      show "P (book w1)"
        using pr P del add_prompt_result [of ?n ?rec "book w" "stdin w" "stdout w" res w1]
        by (auto split: if_splits)
      fix n' rec' assume "res = Inr (n', rec')"
      then show "(field_value n' = a0 \<or> field_value n' = a0 @ ''(1)'') \<and>
                 rec' = map_of (book w1) (field_value n')"
        using pr add_prompt_result [of ?n ?rec "book w" "stdin w" "stdout w" res w1]
        by (auto simp: Name_def split: if_splits)
    qed
    have "add_body args w =
       (case ?pr of
          (Inl e, w') \<Rightarrow> (Inl e, w')
        | (Inr (n', rec'), w') \<Rightarrow>
            if \<not> py_isnumeric (field_value ?p) then (Inl ValueError, w')
            else (case rec' of
                    Some r \<Rightarrow>
                      (Inr (added_message n' ?p),
                       w'\<lparr>book := AList.update (field_value n') (add_phone r ?p) (book w')\<rparr>)
                  | None \<Rightarrow>
                      (Inr (added_message n' ?p),
                       w'\<lparr>book := add_record (Record_init n' (Some ?p)) (book w')\<rparr>)))"
      by (simp only: add_body_def Let_def args list.case)
    then have body: "add_body args w =
       (case res of
          Inl e \<Rightarrow> (Inl e, w1)
        | Inr (n', rec') \<Rightarrow>
            if \<not> py_isnumeric (field_value ?p) then (Inl ValueError, w1)
            else (case rec' of
                    Some r \<Rightarrow>
                      (Inr (added_message n' ?p),
                       w1\<lparr>book := AList.update (field_value n') (add_phone r ?p) (book w1)\<rparr>)
                  | None \<Rightarrow>
                      (Inr (added_message n' ?p),
                       w1\<lparr>book := add_record (Record_init n' (Some ?p)) (book w1)\<rparr>)))"
      by (simp only: pr prod.case)
    show ?thesis
    proof (cases res)
      case (Inl e)
      with body w1 show ?thesis by simp
    next
      case (Inr nr)
      obtain n' rec' where nr: "nr = (n', rec')" by (cases nr)
      from res [of n' rec'] Inr nr
      have k: "field_value n' = a0 \<or> field_value n' = a0 @ ''(1)''"
        and r: "rec' = map_of (book w1) (field_value n')" by auto
      show ?thesis
      proof (cases "py_isnumeric (field_value ?p)")
        case False
        with body Inr nr w1 show ?thesis by simp
      next
        case True
        show ?thesis
        proof (cases rec')
          case None
          have "P (add_record (Record_init n' (Some ?p)) (book w1))"
            using new [OF w1 len, of "field_value n'" ?p] k hd by simp
          with body Inr nr True None show ?thesis by simp
        next
          case (Some r')
          have "P (AList.update (field_value n') (add_phone r' ?p) (book w1))"
            using upd [OF w1] r Some by auto
          with body Inr nr True Some show ?thesis by simp
        qed
      qed
    qed
  qed
qed

lemma set_update_subset: "set (AList.update k v b) \<subseteq> insert (k, v) (set b)"
  by (induction b) auto

lemma set_delete_subset: "set (AList.delete k b) \<subseteq> set b"
  by (induction b) auto

lemma book_inv_empty: "book_inv []"
  by (simp add: book_inv_def)

lemma book_inv_remove: "book_inv b \<Longrightarrow> book_inv (remove_record r b)"
  using set_delete_subset [of "field_value (r_name r)" b]
  by (auto simp: book_inv_def remove_record_def distinct_delete)

lemma book_inv_update:
  "book_inv b \<Longrightarrow> field_value (r_name r) = k \<Longrightarrow> book_inv (AList.update k r b)"
  using set_update_subset [of k r b]
  by (auto simp: book_inv_def distinct_update)

lemma book_inv_lookup: "book_inv b \<Longrightarrow> map_of b k = Some r \<Longrightarrow> field_value (r_name r) = k"
  by (auto simp: book_inv_def dest: map_of_SomeD)

lemma book_inv_add_phone:
  "book_inv b \<Longrightarrow> map_of b k = Some r \<Longrightarrow> book_inv (AList.update k (add_phone r p) b)"
  by (rule book_inv_update) (auto simp: add_phone_def dest: book_inv_lookup)

lemma book_inv_add_record: "book_inv b \<Longrightarrow> book_inv (add_record r b)"
  by (simp add: add_record_def book_inv_update)

lemma book_inv_change_record: "book_inv b \<Longrightarrow> book_inv (change_record n old_n new_n b)"
  by (auto simp: change_record_def Record_change_def split: option.splits
      intro!: book_inv_update dest: book_inv_lookup)

lemma add_keeps_book_inv: "book_inv (book w) \<Longrightarrow> book_inv (book (snd (add args w)))"
  unfolding add_def snd_error_handler
  by (rule add_body_inv) (auto intro: book_inv_remove book_inv_add_phone book_inv_add_record)

lemma change_keeps_book_inv: "book_inv (book w) \<Longrightarrow> book_inv (book (snd (change args w)))"
  unfolding change_def snd_error_handler
  by (auto simp: change_body_def Let_def book_inv_change_record split: list.splits)

lemma delete_keeps_book_inv:
  "book_inv (book w) \<Longrightarrow> book_inv (book (snd (delete_contact args w)))"
  unfolding delete_contact_def snd_error_handler
  by (auto simp: delete_contact_body_def Let_def book_inv_remove split: list.splits)

lemma phone_keeps_book: "book (snd (phone args w)) = book w"
  unfolding phone_def snd_error_handler
  by (auto simp: phone_body_def split: list.splits)

lemma show_all_keeps_book: "book (snd (show_all args w)) = book w"
  unfolding show_all_def snd_error_handler by (simp add: show_all_body_def)

lemma hello_keeps_book: "book (snd (hello args w)) = book w"
  unfolding hello_def snd_error_handler by (simp add: hello_body_def)

lemma helper_keeps_book: "book (snd (helper args w)) = book w"
  unfolding helper_def snd_error_handler by (simp add: helper_body_def)

lemma commands_cases:
  "(c, k) \<in> set COMMANDS \<Longrightarrow>
   c = add \<or> c = hello \<or> c = show_all \<or> c = change \<or> c = phone \<or> c = helper \<or>
   c = delete_contact"
  by (auto simp: COMMANDS_def)

lemma command_keeps_book_inv:
  assumes "(c, k) \<in> set COMMANDS" and "book_inv (book w)"
  shows "book_inv (book (snd (c args w)))"
  using commands_cases [OF assms(1)] assms(2)
  by (auto simp: add_keeps_book_inv change_keeps_book_inv delete_keeps_book_inv
      phone_keeps_book show_all_keeps_book hello_keeps_book helper_keeps_book)

lemma main_iter_book:
  "main_iter w = (st, w') \<Longrightarrow>
   book w' = book w \<or>
   (\<exists>c k args. (c, k) \<in> set COMMANDS \<and>
      args = py_split (CHR 0x20) (py_strip (py_replace k [] (py_lower (hd (stdin w))))) \<and>
      book w' = book (snd (c args (w\<lparr>stdin := tl (stdin w), stdout := stdout w @ [''>>>'']\<rparr>))))"
proof (cases "stdin w")
  case Nil
  assume "main_iter w = (st, w')"
  with Nil show ?thesis by (auto simp: main_iter_def)
next
  case (Cons l ins)
  assume m: "main_iter w = (st, w')"
  show ?thesis
  proof (cases "py_lower l \<in> set end_words")
    case True
    with m Cons show ?thesis by (auto simp: main_iter_def Let_def)
  next
    case False
    show ?thesis
    proof (cases "command_parser (py_lower l)")
      case None
      with m Cons False show ?thesis by (auto simp: main_iter_def Let_def)
    next
      case (Some ca)
      obtain c args where ca: "ca = (c, args)" by (cases ca)
      from Some ca obtain k where k: "(c, k) \<in> set COMMANDS"
        and a: "args = py_split (CHR 0x20) (py_strip (py_replace k [] (py_lower l)))"
        unfolding command_parser_def by (blast dest: parser_loop_Some)
      let ?w1 = "w\<lparr>stdin := ins, stdout := stdout w @ [''>>>'']\<rparr>"
      from m Cons False Some ca have "book w' = book (snd (c args ?w1))"
        by (auto simp: main_iter_def Let_def split: prod.splits sum.splits)
      with k a Cons show ?thesis by auto
    qed
  qed
qed

lemma main_iter_keeps_book_inv:
  "book_inv (book w) \<Longrightarrow> main_iter w = (st, w') \<Longrightarrow> book_inv (book w')"
  using main_iter_book [of w st w'] command_keeps_book_inv
  by (metis (no_types, lifting) select_convs(1) surjective update_convs(2,3))

lemma repl_reachable_book_inv: "repl_reachable w \<Longrightarrow> book_inv (book w)"
  by (induction rule: repl_reachable.induct)
     (auto simp: main_start_def book_inv_empty intro: main_iter_keeps_book_inv)

lemmas handler_eval_defs =
  add_def add_body_def change_def change_body_def phone_def phone_body_def
  delete_contact_def delete_contact_body_def show_all_def show_all_body_def
  hello_def hello_body_def helper_def helper_body_def error_handler_def
  Name_def Phone_def repr_def Record_init_def add_phone_def add_record_def remove_record_def
  change_record_def Record_change_def show_one_record_def show_all_records_def
  format_record_def sanitize_number_def py_strip_def char_class_defs
  added_message_def changed_message_def deleted_message_def Let_def

text \<open>
  C9. The empty book satisfies the invariant, and every handler in \<open>COMMANDS\<close>, with any
  arguments and any input, takes a book that satisfies it to one that does; so it holds
  in every state of a session. Under the invariant every record is stored under the
  value of its own name, and no two entries of the book have the same key.
\<close>

theorem book_invariant_preserved:
  "book_inv []
   \<and> (\<forall>(c, k) \<in> set COMMANDS. book_inv (book w) \<longrightarrow> book_inv (book (snd (c args w))))
   \<and> (repl_reachable w' \<longrightarrow> book_inv (book w'))
   \<and> (book_inv b \<longrightarrow>
        (\<forall>(k, r) \<in> set b. field_value (r_name r) = k) \<and>
        (\<forall>i j. i < length b \<and> j < length b \<and> i \<noteq> j \<longrightarrow> fst (b ! i) \<noteq> fst (b ! j)))"
proof -
  have a: "\<forall>(c, k) \<in> set COMMANDS. book_inv (book w) \<longrightarrow> book_inv (book (snd (c args w)))"
    using command_keeps_book_inv by blast
  have b: "book_inv b \<longrightarrow>
        (\<forall>(k, r) \<in> set b. field_value (r_name r) = k) \<and>
        (\<forall>i j. i < length b \<and> j < length b \<and> i \<noteq> j \<longrightarrow> fst (b ! i) \<noteq> fst (b ! j))"
  proof
    assume inv: "book_inv b"
    then have d: "distinct (map fst b)" by (simp add: book_inv_def)
    have "\<forall>i j. i < length b \<and> j < length b \<and> i \<noteq> j \<longrightarrow> fst (b ! i) \<noteq> fst (b ! j)"
    proof (intro allI impI)
      fix i j assume ij: "i < length b \<and> j < length b \<and> i \<noteq> j"
      then show "fst (b ! i) \<noteq> fst (b ! j)"
        using d nth_eq_iff_index_eq [of "map fst b" i j] by simp
    qed
    with inv show "(\<forall>(k, r) \<in> set b. field_value (r_name r) = k) \<and>
        (\<forall>i j. i < length b \<and> j < length b \<and> i \<noteq> j \<longrightarrow> fst (b ! i) \<noteq> fst (b ! j))"
      by (simp add: book_inv_def)
  qed
  from a b book_inv_empty repl_reachable_book_inv show ?thesis by blast
qed

theorem book_invariant_preserved_witness:
  "book_inv [(''ann'', Record_init (Name ''ann'') (Some (Phone ''111'')))]
   \<and> book (snd (add [''bob'', ''222'']
        \<lparr>book = [(''ann'', Record_init (Name ''ann'') (Some (Phone ''111'')))],
         stdin = [], stdout = []\<rparr>)) =
       [(''ann'', Record_init (Name ''ann'') (Some (Phone ''111''))),
        (''bob'', Record_init (Name ''bob'') (Some (Phone ''222'')))]
   \<and> book_inv (book (snd (add [''bob'', ''222'']
        \<lparr>book = [(''ann'', Record_init (Name ''ann'') (Some (Phone ''111'')))],
         stdin = [], stdout = []\<rparr>)))"
proof -
  have h: "book_inv [(''ann'', Record_init (Name ''ann'') (Some (Phone ''111'')))]"
    by (simp add: book_inv_def Record_init_def Name_def)
  have e: "book (snd (add [''bob'', ''222'']
        \<lparr>book = [(''ann'', Record_init (Name ''ann'') (Some (Phone ''111'')))],
         stdin = [], stdout = []\<rparr>)) =
       [(''ann'', Record_init (Name ''ann'') (Some (Phone ''111''))),
        (''bob'', Record_init (Name ''bob'') (Some (Phone ''222'')))]"
    by (simp add: handler_eval_defs)
  from book_invariant_preserved [where args = "[''bob'', ''222'']" and
      w = "\<lparr>book = [(''ann'', Record_init (Name ''ann'') (Some (Phone ''111'')))],
            stdin = [], stdout = []\<rparr>"] h
  have "book_inv (book (snd (add [''bob'', ''222'']
        \<lparr>book = [(''ann'', Record_init (Name ''ann'') (Some (Phone ''111'')))],
         stdin = [], stdout = []\<rparr>)))"
    by (simp add: COMMANDS_def)
  with h e show ?thesis by simp
qed

section \<open>A keyword alone on the line\<close>

lemma add_keeps_no_empty_key:
  assumes "map_of (book w) [] = None" and "args = [[]] \<or> hd args \<noteq> []"
  shows "map_of (book (snd (add args w))) [] = None"
  unfolding add_def snd_error_handler
proof (rule add_body_inv)
  show "map_of (book w) [] = None" by (rule assms(1))
next
  fix r and b :: AddressBook assume "map_of b [] = None"
  then show "map_of (remove_record r b) [] = None"
    by (simp add: remove_record_def delete_conv')
next
  fix b :: AddressBook and k r p assume "map_of b [] = None" "map_of b k = Some r"
  then show "map_of (AList.update k (add_phone r p) b) [] = None"
    by (auto simp: update_conv')
next
  fix b :: AddressBook and k p
  assume "map_of b [] = None" "2 \<le> length args"
    "k = hd args \<or> k = hd args @ ''(1)''"
  with assms(2) show "map_of (add_record (Record_init (Field k) (Some p)) b) [] = None"
    by (auto simp: add_record_def Record_init_def update_conv')
qed

lemma change_keeps_no_empty_key:
  "map_of (book w) [] = None \<Longrightarrow> map_of (book (snd (change args w))) [] = None"
  unfolding change_def snd_error_handler
  by (auto simp: change_body_def Let_def change_record_def update_conv'
      split: list.splits option.splits)

lemma delete_keeps_no_empty_key:
  "map_of (book w) [] = None \<Longrightarrow> map_of (book (snd (delete_contact args w))) [] = None"
  unfolding delete_contact_def snd_error_handler
  by (auto simp: delete_contact_body_def Let_def remove_record_def delete_conv'
      split: list.splits)

lemma command_keeps_no_empty_key:
  assumes "(c, k) \<in> set COMMANDS" and "map_of (book w) [] = None"
    and "args = [[]] \<or> hd args \<noteq> []"
  shows "map_of (book (snd (c args w))) [] = None"
  using commands_cases [OF assms(1)] assms(2,3)
  by (auto simp: add_keeps_no_empty_key change_keeps_no_empty_key delete_keeps_no_empty_key
      phone_keeps_book show_all_keeps_book hello_keeps_book helper_keeps_book)

lemma main_iter_keeps_no_empty_key:
  assumes "map_of (book w) [] = None" and "main_iter w = (st, w')"
  shows "map_of (book w') [] = None"
proof -
  from main_iter_book [OF assms(2)] show ?thesis
  proof
    assume "book w' = book w"
    with assms(1) show ?thesis by simp
  next
    assume "\<exists>c k args. (c, k) \<in> set COMMANDS \<and>
      args = py_split (CHR 0x20) (py_strip (py_replace k [] (py_lower (hd (stdin w))))) \<and>
      book w' = book (snd (c args (w\<lparr>stdin := tl (stdin w), stdout := stdout w @ [''>>>'']\<rparr>)))"
    then obtain c k args where ck: "(c, k) \<in> set COMMANDS"
      and a: "args = py_split (CHR 0x20) (py_strip (py_replace k [] (py_lower (hd (stdin w)))))"
      and b: "book w' =
        book (snd (c args (w\<lparr>stdin := tl (stdin w), stdout := stdout w @ [''>>>'']\<rparr>)))"
      by blast
    from a have "args = [[]] \<or> hd args \<noteq> []" by (rule parser_args_head)
    with ck assms(1) b show ?thesis
      by (simp add: command_keeps_no_empty_key)
  qed
qed

lemma repl_reachable_no_empty_key: "repl_reachable w \<Longrightarrow> map_of (book w) [] = None"
  by (induction rule: repl_reachable.induct)
     (auto simp: main_start_def intro: main_iter_keeps_no_empty_key)

lemma main_iter_line:
  "stdin w = user_input # ins \<Longrightarrow> py_lower user_input \<notin> set end_words \<Longrightarrow>
   command_parser (py_lower user_input) = Some (command, data) \<Longrightarrow>
   main_iter w =
     (case command data (w\<lparr>stdin := ins, stdout := stdout w @ [''>>>'']\<rparr>) of
        (Inl e, w2) \<Rightarrow> (Crashed e, w2)
      | (Inr s, w2) \<Rightarrow> (Running, w2\<lparr>stdout := stdout w2 @ [s]\<rparr>))"
  by (simp add: main_iter_def Let_def)

text \<open>
  C10. A line that in lower case is exactly a keyword is parsed into that command with
  one argument, the empty string, and not with an empty argument list. So in every
  state of a session the line \<open>phone\<close> is answered with the not-found message for the
  empty name (no session stores a record under the empty name), where \<open>phone\<close> without
  arguments gives the missing-argument message; and the line \<open>add\<close> is answered with
  the missing-argument message, its second argument being absent.
\<close>

theorem bare_keyword_empty_argument:
  "(\<forall>(c, k) \<in> set COMMANDS. \<forall>line. py_lower line = k \<longrightarrow>
       command_parser (py_lower line) = Some (c, ['''']))
   \<and> (repl_reachable w \<and> stdin w = line # ins \<and> py_lower line = ''phone'' \<longrightarrow>
        main_iter w =
          (Running, w\<lparr>stdin := ins,
                      stdout := stdout w @ [''>>>'', ''There is no contact with the name '']\<rparr>))
   \<and> (stdin w = line # ins \<and> py_lower line = ''add'' \<longrightarrow>
        main_iter w =
          (Running, w\<lparr>stdin := ins,
                      stdout := stdout w @
                        [''>>>'', ''You didn't provide contact name or phone number'']\<rparr>))
   \<and> phone [] w = (Inr ''You didn't provide contact name or phone number'', w)"
proof -
  have parse: "\<forall>(c, k) \<in> set COMMANDS. command_parser k = Some (c, [''''])"
    by (simp add: parser_eval_defs)
  then have a: "\<forall>(c, k) \<in> set COMMANDS. \<forall>line. py_lower line = k \<longrightarrow>
       command_parser (py_lower line) = Some (c, [''''])"
    by auto
  have b: "main_iter w =
          (Running, w\<lparr>stdin := ins,
                      stdout := stdout w @ [''>>>'', ''There is no contact with the name '']\<rparr>)"
    if r: "repl_reachable w" and s: "stdin w = line # ins" and l: "py_lower line = ''phone''"
  proof -
    have p: "command_parser (py_lower line) = Some (phone, [''''])"
      using parse l by (simp add: COMMANDS_def)
    have e: "py_lower line \<notin> set end_words"
      using l by (simp add: end_words_def)
    from repl_reachable_no_empty_key [OF r] show ?thesis
      by (simp add: main_iter_line [OF s e p] phone_def error_handler_def phone_body_def
          show_one_record_def)
  qed
  have c: "main_iter w =
          (Running, w\<lparr>stdin := ins,
                      stdout := stdout w @
                        [''>>>'', ''You didn't provide contact name or phone number'']\<rparr>)"
    if s: "stdin w = line # ins" and l: "py_lower line = ''add''"
  proof -
    have p: "command_parser (py_lower line) = Some (add, [''''])"
      using parse l by (simp add: COMMANDS_def)
    have e: "py_lower line \<notin> set end_words"
      using l by (simp add: end_words_def)
    show ?thesis
      by (simp add: main_iter_line [OF s e p] add_def error_handler_def add_body_def)
  qed
  have d: "phone [] w = (Inr ''You didn't provide contact name or phone number'', w)"
    by (simp add: phone_def error_handler_def phone_body_def)
  from a b c d show ?thesis by blast
qed

theorem bare_keyword_empty_argument_witness:
  "repl_reachable (main_start [''Phone''] [])
   \<and> py_lower ''Phone'' = ''phone''
   \<and> command_parser (py_lower ''Phone'') = Some (phone, [''''])
   \<and> main_iter (main_start [''Phone''] []) =
       (Running, \<lparr>book = [], stdin = [],
                  stdout = [banner, ''>>>'', ''There is no contact with the name '']\<rparr>)
   \<and> main_iter (main_start [''add''] []) =
       (Running, \<lparr>book = [], stdin = [],
                  stdout = [banner, ''>>>'',
                            ''You didn't provide contact name or phone number'']\<rparr>)"
proof -
  have r: "repl_reachable (main_start [''Phone''] [])"
    by (rule repl_reachable.start)
  have l: "py_lower ''Phone'' = ''phone''" and l': "py_lower ''add'' = ''add''"
    by (simp_all add: lower_defs)
  note t1 = bare_keyword_empty_argument
         [where w = "main_start [''Phone''] []" and line = "''Phone''" and ins = "[]"]
  note t2 = bare_keyword_empty_argument
         [where w = "main_start [''add''] []" and line = "''add''" and ins = "[]"]
  from t1 have "\<forall>(c, k) \<in> set COMMANDS. \<forall>line. py_lower line = k \<longrightarrow>
       command_parser (py_lower line) = Some (c, [''''])"
    by (rule conjunct1)
  then have "\<forall>line. py_lower line = ''phone'' \<longrightarrow>
       command_parser (py_lower line) = Some (phone, [''''])"
    by (simp add: COMMANDS_def)
  with l have p: "command_parser (py_lower ''Phone'') = Some (phone, [''''])"
    by blast
  from t1 r l have m1: "main_iter (main_start [''Phone''] []) =
       (Running, \<lparr>book = [], stdin = [],
                  stdout = [banner, ''>>>'', ''There is no contact with the name '']\<rparr>)"
    by (simp add: main_start_def)
  from t2 l' have m2: "main_iter (main_start [''add''] []) =
       (Running, \<lparr>book = [], stdin = [],
                  stdout = [banner, ''>>>'',
                            ''You didn't provide contact name or phone number'']\<rparr>)"
    by (simp add: main_start_def)
  from r l p m1 m2 show ?thesis by blast
qed

section \<open>Adding a phone to an existing contact\<close>

lemma sublist_py_join: "x \<in> set xs \<Longrightarrow> sublist x (py_join sep xs)"
proof (induction sep xs rule: py_join.induct)
  case (1 sep)
  then show ?case by simp
next
  case (2 sep y)
  then show ?case by simp
next
  case (3 sep y z zs)
  show ?case
  proof (cases "x = y")
    case True
    then show ?thesis by simp
  next
    case False
    with 3 have "sublist x (py_join sep (z # zs))" by simp
    then have "sublist x ((y @ sep) @ py_join sep (z # zs))"
      by (rule sublist_order.order_trans) (rule sublist_append_leftI)
    then show ?thesis by simp
  qed
qed

lemma name_in_show_all:
  assumes "map_of b n = Some r" and "field_value (r_name r) = n"
  shows "py_in n (show_all_records b)"
proof -
  from assms(1) have mem: "(n, r) \<in> set b" by (rule map_of_SomeD)
  then have ne: "b \<noteq> []" by auto
  have "sublist n (format_record r)"
    using assms(2) by (simp add: format_record_def repr_def)
  moreover from mem have "format_record r \<in> set (map (\<lambda>(k, r). format_record r) b)"
    by force
  then have "sublist (format_record r) (py_join [CHR 0x0A] (map (\<lambda>(k, r). format_record r) b))"
    by (rule sublist_py_join)
  ultimately have "sublist n (py_join [CHR 0x0A] (map (\<lambda>(k, r). format_record r) b))"
    by (rule sublist_order.order_trans)
  with ne show ?thesis by (simp add: py_in_sublist show_all_records_def)
qed


lemma add_prompt_skip:
  "\<forall>l \<in> set junk. l \<noteq> ''1'' \<and> l \<noteq> ''2'' \<Longrightarrow>
   add_prompt n rec b (junk @ ins) out =
     add_prompt n rec b ins
       (out @ concat (map (\<lambda>l. [exist_prompt, ''Please type '1' or '2' to continue'']) junk))"
  by (induction junk arbitrary: out) auto

lemma add_existing_rewrite_after:
  assumes m: "map_of (book w) n = Some r" and nm: "field_value (r_name r) = n"
    and num: "py_isnumeric (sanitize_number p2)"
    and junk: "\<forall>l \<in> set junk. l \<noteq> ''1'' \<and> l \<noteq> ''2''"
    and s: "stdin w = junk @ ''1'' # ins"
  shows "add (n # p2 # rest) w =
     (Inr (added_message (Name n) (Phone p2)),
      \<lparr>book = AList.update n (Record_init (Name n) (Some (Phone p2))) (AList.delete n (book w)),
       stdin = ins,
       stdout = stdout w @
         concat (map (\<lambda>l. [exist_prompt, ''Please type '1' or '2' to continue'']) junk) @
         [exist_prompt]\<rparr>)"
  using name_in_show_all [OF m nm] m nm num
  by (simp add: add_def error_handler_def add_body_def Let_def Name_def Phone_def
      remove_record_def delete_conv' add_record_def Record_init_def s add_prompt_skip [OF junk])

lemma add_existing_create_new_after:
  assumes m: "map_of (book w) n = Some r" and nm: "field_value (r_name r) = n"
    and num: "py_isnumeric (sanitize_number p2)"
    and junk: "\<forall>l \<in> set junk. l \<noteq> ''1'' \<and> l \<noteq> ''2''"
    and s: "stdin w = junk @ ''2'' # ins"
  shows "add (n # p2 # rest) w =
     (Inr (added_message (Name (n @ ''(1)'')) (Phone p2)),
      \<lparr>book = (case map_of (book w) (n @ ''(1)'') of
                 Some r1 \<Rightarrow> AList.update (n @ ''(1)'') (add_phone r1 (Phone p2)) (book w)
               | None \<Rightarrow> AList.update (n @ ''(1)'')
                          (Record_init (Name (n @ ''(1)'')) (Some (Phone p2))) (book w)),
       stdin = ins,
       stdout = stdout w @
         concat (map (\<lambda>l. [exist_prompt, ''Please type '1' or '2' to continue'']) junk) @
         [exist_prompt]\<rparr>)"
  using name_in_show_all [OF m nm] m nm num
  by (simp add: add_def error_handler_def add_body_def Let_def Name_def Phone_def
      add_record_def Record_init_def s add_prompt_skip [OF junk] split: option.splits)

lemma add_existing_no_answer:
  assumes m: "map_of (book w) n = Some r" and nm: "field_value (r_name r) = n"
    and junk: "\<forall>l \<in> set junk. l \<noteq> ''1'' \<and> l \<noteq> ''2''"
    and s: "stdin w = junk"
  shows "add (n # p2 # rest) w =
     (Inl EOFError,
      \<lparr>book = book w, stdin = [],
       stdout = stdout w @
         concat (map (\<lambda>l. [exist_prompt, ''Please type '1' or '2' to continue'']) junk) @
         [exist_prompt]\<rparr>)"
  using name_in_show_all [OF m nm] m nm add_prompt_skip [OF junk, of "Field n" "Some r" "book w" "[]" "stdout w"]
  by (simp add: add_def error_handler_def add_body_def Let_def Name_def s)

text \<open>
  C2, as the code has it. When a record is stored under the name given to \<open>add\<close> and
  carries that name, the name occurs in the text of the whole book, so \<open>add\<close> writes
  the question whether to rewrite the record or to create a new one and reads a line.
  A line that is neither 1 nor 2 is answered with the reminder and the question is
  written again; when the input ends before an answer, \<open>input\<close> raises \<open>EOFError\<close> and
  the book is as it was. After the answer 1 the old record is removed and a new record
  with the one sanitized phone is stored: \<open>phone\<close> lists that phone alone. After the
  answer 2 the record under the name is left as it was and the phone goes to the record
  named with the suffix \<open>(1)\<close>: when that record exists the phone is appended to it,
  and \<open>phone\<close> for that name lists its old phones and then the new one, joined by
  commas; otherwise it is created with the one phone. The lines up to the answer are
  consumed, and the questions and reminders are all that is written.
\<close>

theorem add_existing_contact:
  assumes "map_of (book w) n = Some r" and "field_value (r_name r) = n"
    and "py_isnumeric (sanitize_number p2)"
    and "\<forall>l \<in> set junk. l \<noteq> ''1'' \<and> l \<noteq> ''2''"
  shows "(stdin w = junk @ ''1'' # ins \<longrightarrow>
            add (n # p2 # rest) w =
              (Inr (''You just added contact '' @ [CHR 0x22] @ n @ [CHR 0x22] @ '' with phone '' @
                    [CHR 0x22] @ sanitize_number p2 @ [CHR 0x22] @ '' to your list of contacts''),
               \<lparr>book = AList.update n (Record_init (Name n) (Some (Phone p2)))
                         (AList.delete n (book w)),
                stdin = ins,
                stdout = stdout w @
                  concat (map (\<lambda>l. [exist_prompt, ''Please type '1' or '2' to continue'']) junk) @
                  [exist_prompt]\<rparr>)
          \<and> map_of (book (snd (add (n # p2 # rest) w))) n =
              Some (Record_init (Name n) (Some (Phone p2)))
          \<and> fst (phone [n] (snd (add (n # p2 # rest) w))) =
              Inr (n @ '' : '' @ sanitize_number p2))
       \<and> (stdin w = junk @ ''2'' # ins \<longrightarrow>
            add (n # p2 # rest) w =
              (Inr (''You just added contact '' @ [CHR 0x22] @ n @ ''(1)'' @ [CHR 0x22] @
                    '' with phone '' @ [CHR 0x22] @ sanitize_number p2 @ [CHR 0x22] @
                    '' to your list of contacts''),
               \<lparr>book = (case map_of (book w) (n @ ''(1)'') of
                          Some r1 \<Rightarrow>
                            AList.update (n @ ''(1)'') (add_phone r1 (Phone p2)) (book w)
                        | None \<Rightarrow>
                            AList.update (n @ ''(1)'')
                              (Record_init (Name (n @ ''(1)'')) (Some (Phone p2))) (book w)),
                stdin = ins,
                stdout = stdout w @
                  concat (map (\<lambda>l. [exist_prompt, ''Please type '1' or '2' to continue'']) junk) @
                  [exist_prompt]\<rparr>)
          \<and> map_of (book (snd (add (n # p2 # rest) w))) n = Some r
          \<and> fst (phone [n] (snd (add (n # p2 # rest) w))) = fst (phone [n] w)
          \<and> (\<forall>r1. map_of (book w) (n @ ''(1)'') = Some r1 \<longrightarrow>
                 map_of (book (snd (add (n # p2 # rest) w))) (n @ ''(1)'') =
                   Some (r1\<lparr>r_phones := r_phones r1 @ [Phone p2]\<rparr>)
               \<and> fst (phone [n @ ''(1)''] (snd (add (n # p2 # rest) w))) =
                   Inr (repr (r_name r1) @ '' : '' @
                        py_join '','' (map repr (r_phones r1) @ [sanitize_number p2])))
          \<and> (map_of (book w) (n @ ''(1)'') = None \<longrightarrow>
                 fst (phone [n @ ''(1)''] (snd (add (n # p2 # rest) w))) =
                   Inr (n @ ''(1) : '' @ sanitize_number p2)))
       \<and> (stdin w = junk \<longrightarrow>
            add (n # p2 # rest) w =
              (Inl EOFError,
               \<lparr>book = book w, stdin = [],
                stdout = stdout w @
                  concat (map (\<lambda>l. [exist_prompt, ''Please type '1' or '2' to continue'']) junk) @
                  [exist_prompt]\<rparr>))
       \<and> exist_prompt =
           ''Contact with this name already exist, do you want to rewrite it or create new record? '1'/'2'' @
           [CHR 0x27, CHR 0x0A]"
proof -
  note a = assms(1-3) and j = assms(4)
  have one: "add (n # p2 # rest) w =
              (Inr (''You just added contact '' @ [CHR 0x22] @ n @ [CHR 0x22] @ '' with phone '' @
                    [CHR 0x22] @ sanitize_number p2 @ [CHR 0x22] @ '' to your list of contacts''),
               \<lparr>book = AList.update n (Record_init (Name n) (Some (Phone p2)))
                         (AList.delete n (book w)),
                stdin = ins,
                stdout = stdout w @
                  concat (map (\<lambda>l. [exist_prompt, ''Please type '1' or '2' to continue'']) junk) @
                  [exist_prompt]\<rparr>)
          \<and> map_of (book (snd (add (n # p2 # rest) w))) n =
              Some (Record_init (Name n) (Some (Phone p2)))
          \<and> fst (phone [n] (snd (add (n # p2 # rest) w))) =
              Inr (n @ '' : '' @ sanitize_number p2)"
    if s: "stdin w = junk @ ''1'' # ins"
    by (simp add: add_existing_rewrite_after [OF a j s] added_message_def repr_def Name_def
        Phone_def update_conv' phone_def error_handler_def phone_body_def show_one_record_def
        format_record_def Record_init_def)
  have two: "add (n # p2 # rest) w =
              (Inr (''You just added contact '' @ [CHR 0x22] @ n @ ''(1)'' @ [CHR 0x22] @
                    '' with phone '' @ [CHR 0x22] @ sanitize_number p2 @ [CHR 0x22] @
                    '' to your list of contacts''),
               \<lparr>book = (case map_of (book w) (n @ ''(1)'') of
                          Some r1 \<Rightarrow>
                            AList.update (n @ ''(1)'') (add_phone r1 (Phone p2)) (book w)
                        | None \<Rightarrow>
                            AList.update (n @ ''(1)'')
                              (Record_init (Name (n @ ''(1)'')) (Some (Phone p2))) (book w)),
                stdin = ins,
                stdout = stdout w @
                  concat (map (\<lambda>l. [exist_prompt, ''Please type '1' or '2' to continue'']) junk) @
                  [exist_prompt]\<rparr>)
          \<and> map_of (book (snd (add (n # p2 # rest) w))) n = Some r
          \<and> fst (phone [n] (snd (add (n # p2 # rest) w))) = fst (phone [n] w)
          \<and> (\<forall>r1. map_of (book w) (n @ ''(1)'') = Some r1 \<longrightarrow>
                 map_of (book (snd (add (n # p2 # rest) w))) (n @ ''(1)'') =
                   Some (r1\<lparr>r_phones := r_phones r1 @ [Phone p2]\<rparr>)
               \<and> fst (phone [n @ ''(1)''] (snd (add (n # p2 # rest) w))) =
                   Inr (repr (r_name r1) @ '' : '' @
                        py_join '','' (map repr (r_phones r1) @ [sanitize_number p2])))
          \<and> (map_of (book w) (n @ ''(1)'') = None \<longrightarrow>
                 fst (phone [n @ ''(1)''] (snd (add (n # p2 # rest) w))) =
                   Inr (n @ ''(1) : '' @ sanitize_number p2))"
    if s: "stdin w = junk @ ''2'' # ins"
    using assms(1)
    by (auto simp: add_existing_create_new_after [OF a j s] added_message_def repr_def Name_def
        Phone_def update_conv' phone_def error_handler_def phone_body_def show_one_record_def
        format_record_def Record_init_def add_phone_def split: option.splits)
  have three: "add (n # p2 # rest) w =
              (Inl EOFError,
               \<lparr>book = book w, stdin = [],
                stdout = stdout w @
                  concat (map (\<lambda>l. [exist_prompt, ''Please type '1' or '2' to continue'']) junk) @
                  [exist_prompt]\<rparr>)"
    if s: "stdin w = junk"
    by (rule add_existing_no_answer [OF assms(1,2) j s])
  have four: "exist_prompt =
           ''Contact with this name already exist, do you want to rewrite it or create new record? '1'/'2'' @
           [CHR 0x27, CHR 0x0A]"
    by (simp add: exist_prompt_def)
  from one two three four show ?thesis by blast
qed

theorem add_existing_contact_witness:
  "map_of [(''Alice'', Record_init (Name ''Alice'') (Some (Phone ''123-456-7890'')))] ''Alice'' =
     Some (Record_init (Name ''Alice'') (Some (Phone ''123-456-7890'')))
   \<and> field_value (r_name (Record_init (Name ''Alice'') (Some (Phone ''123-456-7890'')))) = ''Alice''
   \<and> py_isnumeric (sanitize_number ''111-222-3333'')
   \<and> ''x'' \<noteq> ''1'' \<and> ''x'' \<noteq> ''2''
   \<and> add [''Alice'', ''111-222-3333'']
        \<lparr>book = [(''Alice'', Record_init (Name ''Alice'') (Some (Phone ''123-456-7890'')))],
         stdin = [''x'', ''1'', ''hello''], stdout = []\<rparr> =
       (Inr (''You just added contact '' @ [CHR 0x22] @ ''Alice'' @ [CHR 0x22] @ '' with phone '' @
             [CHR 0x22] @ ''1112223333'' @ [CHR 0x22] @ '' to your list of contacts''),
        \<lparr>book = [(''Alice'', Record_init (Name ''Alice'') (Some (Phone ''111-222-3333'')))],
         stdin = [''hello''],
         stdout = [exist_prompt, ''Please type '1' or '2' to continue'', exist_prompt]\<rparr>)
   \<and> fst (phone [''Alice''] (snd (add [''Alice'', ''111-222-3333'']
        \<lparr>book = [(''Alice'', Record_init (Name ''Alice'') (Some (Phone ''123-456-7890'')))],
         stdin = [''x'', ''1'', ''hello''], stdout = []\<rparr>))) = Inr ''Alice : 1112223333''
   \<and> fst (phone [''Alice(1)''] (snd (add [''Alice'', ''111-222-3333'']
        \<lparr>book = [(''Alice'', Record_init (Name ''Alice'') (Some (Phone ''123-456-7890''))),
                 (''Alice(1)'', Record_init (Name ''Alice(1)'') (Some (Phone ''555'')))],
         stdin = [''2''], stdout = []\<rparr>))) = Inr ''Alice(1) : 555,1112223333''"
proof -
  let ?r = "Record_init (Name ''Alice'') (Some (Phone ''123-456-7890''))"
  let ?r1 = "Record_init (Name ''Alice(1)'') (Some (Phone ''555''))"
  let ?w1 = "\<lparr>book = [(''Alice'', ?r)], stdin = [''x'', ''1'', ''hello''], stdout = []\<rparr>"
  let ?w2 = "\<lparr>book = [(''Alice'', ?r), (''Alice(1)'', ?r1)], stdin = [''2''], stdout = []\<rparr>"
  have s: "sanitize_number ''111-222-3333'' = ''1112223333''"
    and s5: "sanitize_number ''555'' = ''555''"
    by (simp_all add: sanitize_number_def py_strip_def isspace_def whitespace_chars_def)
  have h1: "map_of (book ?w1) ''Alice'' = Some ?r" and h1': "map_of (book ?w2) ''Alice'' = Some ?r"
    by simp_all
  have h2: "field_value (r_name ?r) = ''Alice''"
    by (simp add: Record_init_def Name_def)
  have h3: "py_isnumeric (sanitize_number ''111-222-3333'')"
    by (simp add: s char_class_defs)
  have j: "\<forall>l \<in> set [''x'']. l \<noteq> ''1'' \<and> l \<noteq> ''2''" and j0: "\<forall>l \<in> set []. l \<noteq> ''1'' \<and> l \<noteq> ''2''"
    by simp_all
  have x: "''x'' \<noteq> ''1''" "''x'' \<noteq> ''2''" by simp_all
  have m: "map_of (book ?w2) (''Alice'' @ ''(1)'') = Some ?r1"
    by simp
  note t1 = add_existing_contact [OF h1 h2 h3 j, of "[''hello'']" "[]"]
  note t2 = add_existing_contact [OF h1' h2 h3 j0, of "[]" "[]"]
  from t1 have a0: "add [''Alice'', ''111-222-3333''] ?w1 =
       (Inr (''You just added contact '' @ [CHR 0x22] @ ''Alice'' @ [CHR 0x22] @ '' with phone '' @
             [CHR 0x22] @ ''1112223333'' @ [CHR 0x22] @ '' to your list of contacts''),
        \<lparr>book = [(''Alice'', Record_init (Name ''Alice'') (Some (Phone ''111-222-3333'')))],
         stdin = [''hello''],
         stdout = [exist_prompt, ''Please type '1' or '2' to continue'', exist_prompt]\<rparr>)"
    by (simp add: s)
  from t1 have "stdin ?w1 = [''x''] @ ''1'' # [''hello''] \<longrightarrow>
      fst (phone [''Alice''] (snd (add [''Alice'', ''111-222-3333''] ?w1))) =
        Inr (''Alice'' @ '' : '' @ sanitize_number ''111-222-3333'')"
    by blast
  then have a: "fst (phone [''Alice''] (snd (add [''Alice'', ''111-222-3333''] ?w1))) =
      Inr ''Alice : 1112223333''"
    by (simp add: s)
  have st: "stdin ?w2 = [] @ ''2'' # []" by simp
  from t2 have "stdin ?w2 = [] @ ''2'' # [] \<longrightarrow>
      (\<forall>r1. map_of (book ?w2) (''Alice'' @ ''(1)'') = Some r1 \<longrightarrow>
         fst (phone [''Alice'' @ ''(1)''] (snd (add [''Alice'', ''111-222-3333''] ?w2))) =
           Inr (repr (r_name r1) @ '' : '' @
                py_join '','' (map repr (r_phones r1) @ [sanitize_number ''111-222-3333''])))"
    by blast
  with st m
  have "fst (phone [''Alice'' @ ''(1)''] (snd (add [''Alice'', ''111-222-3333''] ?w2))) =
           Inr (repr (r_name ?r1) @ '' : '' @
                py_join '','' (map repr (r_phones ?r1) @ [sanitize_number ''111-222-3333'']))"
    by blast
  then have b: "fst (phone [''Alice(1)''] (snd (add [''Alice'', ''111-222-3333''] ?w2))) =
      Inr ''Alice(1) : 555,1112223333''"
    by (simp add: s s5 Record_init_def Name_def Phone_def repr_def)
  from h1 h2 h3 x a0 a b show ?thesis by simp
qed

text \<open>
  Whatever is typed at the prompt, the record under the name is afterwards the old one,
  a new one with the single phone, or gone (rewritten with a phone that is not numeric):
  it never holds the old phones and the new one.
\<close>

lemma add_existing_outcomes:
  assumes m: "map_of (book w) n = Some r" and nm: "field_value (r_name r) = n"
  shows "map_of (book (snd (add (n # p2 # rest) w))) n = Some r
       \<or> map_of (book (snd (add (n # p2 # rest) w))) n = None
       \<or> map_of (book (snd (add (n # p2 # rest) w))) n =
           Some (Record_init (Name n) (Some (Phone p2)))"
proof -
  let ?pr = "add_prompt (Field n) (Some r) (book w) (stdin w) (stdout w)"
  obtain res w1 where pr: "?pr = (res, w1)" by (cases ?pr) auto
  have body: "add_body (n # p2 # rest) w =
     (case ?pr of
        (Inl e, w') \<Rightarrow> (Inl e, w')
      | (Inr (n', rec'), w') \<Rightarrow>
          if \<not> py_isnumeric (field_value (Phone p2)) then (Inl ValueError, w')
          else (case rec' of
                  Some r' \<Rightarrow>
                    (Inr (added_message n' (Phone p2)),
                     w'\<lparr>book := AList.update (field_value n') (add_phone r' (Phone p2)) (book w')\<rparr>)
                | None \<Rightarrow>
                    (Inr (added_message n' (Phone p2)),
                     w'\<lparr>book := add_record (Record_init n' (Some (Phone p2))) (book w')\<rparr>)))"
    using name_in_show_all [OF m nm] m by (simp add: add_body_def Let_def Name_def)
  have n1: "n @ ''(1)'' \<noteq> n" by simp
  from add_prompt_result [OF pr] consider
      (keep) "book w1 = book w" "res = Inl EOFError \<or> res = Inl AttributeError"
    | (create) "book w1 = book w"
        "res = Inr (Field (n @ ''(1)''), map_of (book w) (n @ ''(1)''))"
    | (rewrite) "book w1 = AList.delete n (book w)" "res = Inr (Field n, None)"
    using nm by (auto simp: remove_record_def delete_conv')
  then show ?thesis
  proof cases
    case keep
    then show ?thesis
      unfolding add_def snd_error_handler body pr using m by auto
  next
    case create
    then show ?thesis
      unfolding add_def snd_error_handler body pr using m n1
      by (simp add: update_conv' add_record_def Record_init_def split: option.splits)
  next
    case rewrite
    then show ?thesis
      unfolding add_def snd_error_handler body pr
      by (simp add: update_conv' delete_conv' add_record_def Record_init_def Name_def)
  qed
qed

text \<open>
  C2 as stated has \<open>add\<close> append the second phone to the record of the name. With
  Alice holding 1234567890, after \<open>add\<close> with Alice and 1112223333 \<open>phone\<close> lists
  1112223333 alone for the answer 1 and 1234567890 alone for the answer 2, never both;
  with no answer to read, \<open>input\<close> raises \<open>EOFError\<close>.
\<close>

theorem add_existing_contact_counterexample:
  "fst (phone [''Alice''] (snd (add [''Alice'', ''1112223333'']
     \<lparr>book = [(''Alice'', Record_init (Name ''Alice'') (Some (Phone ''123-456-7890'')))],
      stdin = [''1''], stdout = []\<rparr>))) = Inr ''Alice : 1112223333''
   \<and> fst (phone [''Alice''] (snd (add [''Alice'', ''1112223333'']
     \<lparr>book = [(''Alice'', Record_init (Name ''Alice'') (Some (Phone ''123-456-7890'')))],
      stdin = [''2''], stdout = []\<rparr>))) = Inr ''Alice : 1234567890''
   \<and> fst (add [''Alice'', ''1112223333'']
     \<lparr>book = [(''Alice'', Record_init (Name ''Alice'') (Some (Phone ''123-456-7890'')))],
      stdin = [], stdout = []\<rparr>) = Inl EOFError"
  by (simp add: handler_eval_defs)

section \<open>Changing a phone of a record\<close>

lemma find_phone_value:
  "old_p \<in> field_value ` set ps \<Longrightarrow> find (\<lambda>p. field_value p = old_p) ps = Some (Field old_p)"
proof (induction ps)
  case Nil
  then show ?case by simp
next
  case (Cons p ps)
  then show ?case by (cases p) auto
qed

lemma Record_change_found:
  "old_p \<in> field_value ` set (r_phones r) \<Longrightarrow>
   Record_change r old_p new_p =
     (None, r\<lparr>r_phones := remove1 (Field old_p) (r_phones r) @ [Phone new_p]\<rparr>)"
  by (simp add: Record_change_def find_phone_value)

lemma remove1_first:
  "x \<in> set xs \<Longrightarrow>
   \<exists>ys zs. xs = ys @ x # zs \<and> x \<notin> set ys \<and> remove1 x xs = ys @ zs"
proof (induction xs)
  case Nil
  then show ?case by simp
next
  case (Cons a xs)
  show ?case
  proof (cases "a = x")
    case True
    then have "a # xs = [] @ x # xs \<and> x \<notin> set [] \<and> remove1 x (a # xs) = [] @ xs" by simp
    then show ?thesis by blast
  next
    case False
    with Cons obtain ys zs where "xs = ys @ x # zs" "x \<notin> set ys" "remove1 x xs = ys @ zs"
      by auto
    with False have "a # xs = (a # ys) @ x # zs \<and> x \<notin> set (a # ys) \<and>
        remove1 x (a # xs) = (a # ys) @ zs" by auto
    then show ?thesis by blast
  qed
qed

lemma sanitize_new: "sanitize_number ''9998887776'' = ''9998887776''"
  by (simp add: sanitize_number_def py_strip_def isspace_def whitespace_chars_def)

lemma numeric_new: "py_isnumeric ''9998887776''"
  by (simp add: char_class_defs)

lemma single_phone_delete: "single_phone b \<Longrightarrow> single_phone (AList.delete k b)"
  using set_delete_subset [of k b] by (auto simp: single_phone_def)

lemma single_phone_update:
  "single_phone b \<Longrightarrow> suffix ''(1)'' k \<or> length (r_phones r) = 1 \<Longrightarrow>
   single_phone (AList.update k r b)"
  using set_update_subset [of k r b] by (auto simp: single_phone_def)

lemma single_phone_lookup:
  "single_phone b \<Longrightarrow> map_of b k = Some r \<Longrightarrow> \<not> suffix ''(1)'' k \<Longrightarrow>
   length (r_phones r) = 1"
  by (auto simp: single_phone_def dest: map_of_SomeD)

lemma Record_change_length:
  "length (r_phones (snd (Record_change r old_p new_p))) = length (r_phones r)"
proof (cases "find (\<lambda>p. field_value p = old_p) (r_phones r)")
  case None
  then show ?thesis by (simp add: Record_change_def)
next
  case (Some ph)
  then have "ph \<in> set (r_phones r)"
    by (auto simp: find_Some_iff)
  then have "length (remove1 ph (r_phones r)) + 1 = length (r_phones r)"
    using length_pos_if_in_set [of ph "r_phones r"] by (simp add: length_remove1)
  with Some show ?thesis by (simp add: Record_change_def)
qed

lemma change_keeps_single_phone:
  "single_phone (book w) \<Longrightarrow> single_phone (book (snd (change args w)))"
  unfolding change_def snd_error_handler
  by (auto simp: change_body_def Let_def change_record_def Record_change_length
      split: list.splits option.splits
      intro!: single_phone_update dest: single_phone_lookup)

lemma delete_keeps_single_phone:
  "single_phone (book w) \<Longrightarrow> single_phone (book (snd (delete_contact args w)))"
  unfolding delete_contact_def snd_error_handler
  by (auto simp: delete_contact_body_def Let_def remove_record_def single_phone_delete
      split: list.splits)

lemma absent_when_not_shown:
  assumes "book_inv b" and "\<not> py_in n (show_all_records b)"
  shows "map_of b n = None"
proof (rule ccontr)
  assume "map_of b n \<noteq> None"
  then obtain r where r: "map_of b n = Some r" by auto
  with assms(1) have "field_value (r_name r) = n" by (rule book_inv_lookup)
  with r have "py_in n (show_all_records b)" by (rule name_in_show_all)
  with assms(2) show False by simp
qed

lemma add_keeps_single_phone:
  assumes inv: "book_inv (book w)" and sp: "single_phone (book w)"
  shows "single_phone (book (snd (add args w)))"
proof (cases args)
  case Nil
  with sp show ?thesis by (simp add: add_def snd_error_handler add_body_def)
next
  case (Cons a0 as)
  show ?thesis
  proof (cases as)
    case Nil
    with Cons sp show ?thesis by (simp add: add_def snd_error_handler add_body_def)
  next
    case (Cons a1 rest)
    note args = \<open>args = a0 # as\<close> Cons
    show ?thesis
    proof (cases "py_in a0 (show_all_records (book w))")
      case False
      with inv have none: "map_of (book w) a0 = None" by (rule absent_when_not_shown)
      have "book (snd (add args w)) =
          (if \<not> py_isnumeric (field_value (Phone a1)) then book w
           else AList.update a0 (Record_init (Name a0) (Some (Phone a1))) (book w))"
        using False none
        by (simp add: add_def snd_error_handler add_body_def Let_def Name_def args
            add_record_def Record_init_def)
      with sp show ?thesis
        by (simp add: single_phone_update Record_init_def)
    next
      case True
      let ?pr = "add_prompt (Field a0) (map_of (book w) a0) (book w) (stdin w) (stdout w)"
      obtain res w1 where pr: "?pr = (res, w1)" by (cases ?pr) auto
      have body: "add_body args w =
         (case ?pr of
            (Inl e, w') \<Rightarrow> (Inl e, w')
          | (Inr (n', rec'), w') \<Rightarrow>
              if \<not> py_isnumeric (field_value (Phone a1)) then (Inl ValueError, w')
              else (case rec' of
                      Some r' \<Rightarrow>
                        (Inr (added_message n' (Phone a1)),
                         w'\<lparr>book := AList.update (field_value n') (add_phone r' (Phone a1))
                                       (book w')\<rparr>)
                    | None \<Rightarrow>
                        (Inr (added_message n' (Phone a1)),
                         w'\<lparr>book := add_record (Record_init n' (Some (Phone a1))) (book w')\<rparr>)))"
        using True by (simp add: add_body_def Let_def Name_def args)
      from add_prompt_result [OF pr] consider
          (keep) "book w1 = book w" "res = Inl EOFError \<or> res = Inl AttributeError"
        | (create) "book w1 = book w"
            "res = Inr (Field (a0 @ ''(1)''), map_of (book w) (a0 @ ''(1)''))"
        | (rewrite) "book w1 = AList.delete a0 (book w)" "res = Inr (Field a0, None)"
        using inv by (auto simp: remove_record_def delete_conv' dest: book_inv_lookup)
      then show ?thesis
      proof cases
        case keep
        then show ?thesis
          unfolding add_def snd_error_handler body pr using sp by auto
      next
        case create
        then show ?thesis
          unfolding add_def snd_error_handler body pr using sp
          by (auto simp: add_record_def Record_init_def suffix_def split: option.splits
              intro!: single_phone_update)
      next
        case rewrite
        then show ?thesis
          unfolding add_def snd_error_handler body pr using sp
          by (auto simp: add_record_def Record_init_def single_phone_delete
              intro!: single_phone_update)
      qed
    qed
  qed
qed

lemma command_keeps_single_phone:
  assumes "(c, k) \<in> set COMMANDS" and "book_inv (book w)" and "single_phone (book w)"
  shows "single_phone (book (snd (c args w)))"
  using commands_cases [OF assms(1)] assms(2,3)
  by (auto simp: add_keeps_single_phone change_keeps_single_phone delete_keeps_single_phone
      phone_keeps_book show_all_keeps_book hello_keeps_book helper_keeps_book)

lemma handler_reachable_inv: "handler_reachable b \<Longrightarrow> book_inv b \<and> single_phone b"
proof (induction rule: handler_reachable.induct)
  case empty
  show ?case by (simp add: book_inv_empty single_phone_def)
next
  case (call w c k args)
  then show ?case
    by (simp add: command_keeps_book_inv command_keeps_single_phone)
qed

lemma length_one_member: "length xs = 1 \<Longrightarrow> x \<in> set xs \<Longrightarrow> xs = [x]"
  by (cases xs) auto

text \<open>
  C7. In a record whose phones include one of value \<open>old_value\<close>, \<open>Record.change\<close>
  removes the first such phone, keeps the others in their order and appends the phone
  made from \<open>new_value\<close>, sanitized. In every book that calls of the handlers produce
  from the empty book a name that does not end in \<open>(1)\<close> holds exactly one phone. So
  in such a book where Alice holds 1234567890, \<open>phone\<close> lists 1234567890 for Alice
  before, and after \<open>change\<close> with Alice, 1234567890 and 9998887776 it lists
  9998887776 and no longer 1234567890.
\<close>

theorem Record_change_replaces_entry:
  "(old_value \<in> field_value ` set (r_phones r) \<longrightarrow>
      Record_change r old_value new_value =
        (None, r\<lparr>r_phones := remove1 (Field old_value) (r_phones r) @
                                 [Field (sanitize_number new_value)]\<rparr>)
      \<and> (\<exists>ys zs. r_phones r = ys @ Field old_value # zs \<and> Field old_value \<notin> set ys \<and>
            remove1 (Field old_value) (r_phones r) = ys @ zs))
   \<and> (handler_reachable (book w) \<and> map_of (book w) ''Alice'' = Some a \<and>
       Field ''1234567890'' \<in> set (r_phones a) \<longrightarrow>
        map_of (book (snd (change [''Alice'', ''1234567890'', ''9998887776''] w))) ''Alice'' =
          Some (a\<lparr>r_phones := remove1 (Field ''1234567890'') (r_phones a) @
                                  [Field ''9998887776'']\<rparr>)
        \<and> Field ''1234567890'' \<notin>
            set (remove1 (Field ''1234567890'') (r_phones a) @ [Field ''9998887776''])
        \<and> Field ''9998887776'' \<in>
            set (remove1 (Field ''1234567890'') (r_phones a) @ [Field ''9998887776''])
        \<and> fst (phone [''Alice''] w) = Inr ''Alice : 1234567890''
        \<and> fst (phone [''Alice''] (snd (change [''Alice'', ''1234567890'', ''9998887776''] w))) =
            Inr ''Alice : 9998887776'')"
proof -
  have one: "Record_change r old_value new_value =
        (None, r\<lparr>r_phones := remove1 (Field old_value) (r_phones r) @
                                 [Field (sanitize_number new_value)]\<rparr>)
      \<and> (\<exists>ys zs. r_phones r = ys @ Field old_value # zs \<and> Field old_value \<notin> set ys \<and>
            remove1 (Field old_value) (r_phones r) = ys @ zs)"
    if h: "old_value \<in> field_value ` set (r_phones r)"
  proof -
    from h have "Field old_value \<in> set (r_phones r)"
      by (metis (no_types, lifting) Field.collapse imageE)
    then have "\<exists>ys zs. r_phones r = ys @ Field old_value # zs \<and> Field old_value \<notin> set ys \<and>
            remove1 (Field old_value) (r_phones r) = ys @ zs"
      by (rule remove1_first)
    with h show ?thesis by (simp add: Record_change_found Phone_def)
  qed
  have two: "map_of (book (snd (change [''Alice'', ''1234567890'', ''9998887776''] w))) ''Alice'' =
          Some (a\<lparr>r_phones := remove1 (Field ''1234567890'') (r_phones a) @
                                  [Field ''9998887776'']\<rparr>)
        \<and> Field ''1234567890'' \<notin>
            set (remove1 (Field ''1234567890'') (r_phones a) @ [Field ''9998887776''])
        \<and> Field ''9998887776'' \<in>
            set (remove1 (Field ''1234567890'') (r_phones a) @ [Field ''9998887776''])
        \<and> fst (phone [''Alice''] w) = Inr ''Alice : 1234567890''
        \<and> fst (phone [''Alice''] (snd (change [''Alice'', ''1234567890'', ''9998887776''] w))) =
            Inr ''Alice : 9998887776''"
    if reach: "handler_reachable (book w)" and m: "map_of (book w) ''Alice'' = Some a"
      and held: "Field ''1234567890'' \<in> set (r_phones a)"
  proof -
    from handler_reachable_inv [OF reach] have inv: "book_inv (book w)"
      and sp: "single_phone (book w)" by simp_all
    from inv m have nm: "field_value (r_name a) = ''Alice''" by (rule book_inv_lookup)
    have "\<not> suffix ''(1)'' ''Alice''" by (simp add: suffix_def)
    with sp m have "length (r_phones a) = 1" by (rule single_phone_lookup)
    then have ph: "r_phones a = [Field ''1234567890'']"
      using held by (rule length_one_member)
    then have h: "''1234567890'' \<in> field_value ` set (r_phones a)" by simp
    have b: "book (snd (change [''Alice'', ''1234567890'', ''9998887776''] w)) =
          AList.update ''Alice''
            (a\<lparr>r_phones := remove1 (Field ''1234567890'') (r_phones a) @ [Field ''9998887776'']\<rparr>)
            (book w)"
      using m by (simp add: change_numeric [OF numeric_new] change_record_def Name_def
          Record_change_found [OF h] Phone_def sanitize_new)
    have before: "fst (phone [''Alice''] w) = Inr ''Alice : 1234567890''"
      using m nm ph
      by (simp add: phone_def error_handler_def phone_body_def show_one_record_def
          format_record_def repr_def)
    have after: "fst (phone [''Alice''] (snd (change [''Alice'', ''1234567890'', ''9998887776''] w))) =
            Inr ''Alice : 9998887776''"
      using nm ph
      by (simp add: phone_def error_handler_def phone_body_def show_one_record_def b
          update_conv' format_record_def repr_def)
    from b ph before after show ?thesis by (simp add: update_conv')
  qed
  from one two show ?thesis by blast
qed

theorem Record_change_replaces_entry_witness:
  "handler_reachable [(''Alice'', Record_init (Name ''Alice'') (Some (Phone ''123-456-7890'')))]
   \<and> map_of [(''Alice'', Record_init (Name ''Alice'') (Some (Phone ''123-456-7890'')))] ''Alice'' =
       Some (Record_init (Name ''Alice'') (Some (Phone ''123-456-7890'')))
   \<and> Field ''1234567890'' \<in>
       set (r_phones (Record_init (Name ''Alice'') (Some (Phone ''123-456-7890''))))
   \<and> ''1234567890'' \<in>
       field_value ` set (r_phones (Record_init (Name ''Alice'') (Some (Phone ''123-456-7890''))))
   \<and> Record_change (Record_init (Name ''Alice'') (Some (Phone ''123-456-7890'')))
        ''1234567890'' ''999-888-7776'' =
       (None, \<lparr>r_name = Field ''Alice'', r_phone = Some (Field ''1234567890''),
               r_phones = [Field ''9998887776'']\<rparr>)
   \<and> fst (phone [''Alice''] (snd (change [''Alice'', ''1234567890'', ''9998887776'']
        \<lparr>book = [(''Alice'', Record_init (Name ''Alice'') (Some (Phone ''123-456-7890'')))],
         stdin = [], stdout = []\<rparr>))) = Inr ''Alice : 9998887776''"
proof -
  let ?a = "Record_init (Name ''Alice'') (Some (Phone ''123-456-7890''))"
  let ?w = "\<lparr>book = [(''Alice'', ?a)], stdin = [], stdout = []\<rparr>"
  let ?init = "\<lparr>book = [], stdin = [], stdout = []\<rparr>"
  have s1: "sanitize_number ''123-456-7890'' = ''1234567890''"
    and s2: "sanitize_number ''999-888-7776'' = ''9998887776''"
    by (simp_all add: sanitize_number_def py_strip_def isspace_def whitespace_chars_def)
  have ph: "r_phones ?a = [Field ''1234567890'']"
    by (simp add: Record_init_def Phone_def s1)
  have "handler_reachable (book ?init)"
    by (simp add: handler_reachable.empty)
  moreover have "(add, ''add'') \<in> set COMMANDS"
    by (simp add: COMMANDS_def)
  ultimately have r: "handler_reachable (book (snd (add [''Alice'', ''123-456-7890''] ?init)))"
    by (rule handler_reachable.call)
  have e: "book (snd (add [''Alice'', ''123-456-7890''] ?init)) = [(''Alice'', ?a)]"
    by (simp add: handler_eval_defs)
  from r have h0: "handler_reachable [(''Alice'', ?a)]"
    unfolding e .
  then have h1: "handler_reachable (book ?w)" by simp
  have h2: "map_of (book ?w) ''Alice'' = Some ?a" by simp
  have h3: "Field ''1234567890'' \<in> set (r_phones ?a)" by (simp add: ph)
  have h4: "''1234567890'' \<in> field_value ` set (r_phones ?a)" by (simp add: ph)
  note t = Record_change_replaces_entry
      [where r = ?a and old_value = "''1234567890''" and new_value = "''999-888-7776''"
         and w = ?w and a = ?a]
  from t h4 have c1: "Record_change ?a ''1234567890'' ''999-888-7776'' =
       (None, \<lparr>r_name = Field ''Alice'', r_phone = Some (Field ''1234567890''),
               r_phones = [Field ''9998887776'']\<rparr>)"
    by (simp add: s2 ph) (simp add: Record_init_def Name_def Phone_def s1)
  from t h1 h2 h3
  have c2: "fst (phone [''Alice''] (snd (change [''Alice'', ''1234567890'', ''9998887776''] ?w))) =
      Inr ''Alice : 9998887776''"
    by blast
  from h0 h2 h3 h4 c1 c2 show ?thesis by simp
qed

section \<open>A new phone that is numeric and not a digit\<close>

text \<open>
  C6. \<open>change\<close> tests the new phone with \<open>isnumeric\<close>, which is true of more than the
  digits, while its message asks for digits only. The one character of code point 0xBD,
  the fraction one half, is no digit and is numeric: called with it as the new phone,
  \<open>change\<close> returns the confirmation and puts it in the place of the old phone; the main
  loop does the same with the line \<open>change alice 1234567890\<close> followed by a space and
  that character.
\<close>

theorem change_accepts_vulgar_fraction:
  "CHR 0xBD \<notin> set ''0123456789''
   \<and> py_isnumeric [CHR 0xBD]
   \<and> change [''alice'', ''1234567890'', [CHR 0xBD]]
        \<lparr>book = [(''alice'', Record_init (Name ''alice'') (Some (Phone ''1234567890'')))],
         stdin = [], stdout = []\<rparr> =
       (Inr (''You just changed number for contact 'alice'. New number is '' @
             [CHR 0x27, CHR 0xBD, CHR 0x27]),
        \<lparr>book = [(''alice'', \<lparr>r_name = Field ''alice'', r_phone = Some (Field ''1234567890''),
                              r_phones = [Field [CHR 0xBD]]\<rparr>)],
         stdin = [], stdout = []\<rparr>)
   \<and> main_iter
        \<lparr>book = [(''alice'', Record_init (Name ''alice'') (Some (Phone ''1234567890'')))],
         stdin = [''change alice 1234567890 '' @ [CHR 0xBD]], stdout = []\<rparr> =
       (Running,
        \<lparr>book = [(''alice'', \<lparr>r_name = Field ''alice'', r_phone = Some (Field ''1234567890''),
                              r_phones = [Field [CHR 0xBD]]\<rparr>)],
         stdin = [],
         stdout = [''>>>'', ''You just changed number for contact 'alice'. New number is '' @
                            [CHR 0x27, CHR 0xBD, CHR 0x27]]\<rparr>)"
proof -
  have l: "py_lower (''change alice 1234567890 '' @ [CHR 0xBD]) =
      ''change alice 1234567890 '' @ [CHR 0xBD]"
    by (simp add: lower_defs)
  have p: "command_parser (''change alice 1234567890 '' @ [CHR 0xBD]) =
      Some (change, [''alice'', ''1234567890'', [CHR 0xBD]])"
    by (simp add: parser_eval_defs)
  have c: "change [''alice'', ''1234567890'', [CHR 0xBD]]
        \<lparr>book = [(''alice'', Record_init (Name ''alice'') (Some (Phone ''1234567890'')))],
         stdin = [], stdout = []\<rparr> =
       (Inr (''You just changed number for contact 'alice'. New number is '' @
             [CHR 0x27, CHR 0xBD, CHR 0x27]),
        \<lparr>book = [(''alice'', \<lparr>r_name = Field ''alice'', r_phone = Some (Field ''1234567890''),
                              r_phones = [Field [CHR 0xBD]]\<rparr>)],
         stdin = [], stdout = []\<rparr>)"
    by (simp add: handler_eval_defs)
  have c': "change [''alice'', ''1234567890'', [CHR 0xBD]]
        \<lparr>book = [(''alice'', Record_init (Name ''alice'') (Some (Phone ''1234567890'')))],
         stdin = [], stdout = [''>>>'']\<rparr> =
       (Inr (''You just changed number for contact 'alice'. New number is '' @
             [CHR 0x27, CHR 0xBD, CHR 0x27]),
        \<lparr>book = [(''alice'', \<lparr>r_name = Field ''alice'', r_phone = Some (Field ''1234567890''),
                              r_phones = [Field [CHR 0xBD]]\<rparr>)],
         stdin = [], stdout = [''>>>'']\<rparr>)"
    by (simp add: handler_eval_defs)
  have n: "py_isnumeric [CHR 0xBD]" by (simp add: char_class_defs)
  have m: "main_iter
        \<lparr>book = [(''alice'', Record_init (Name ''alice'') (Some (Phone ''1234567890'')))],
         stdin = [''change alice 1234567890 '' @ [CHR 0xBD]], stdout = []\<rparr> =
       (Running,
        \<lparr>book = [(''alice'', \<lparr>r_name = Field ''alice'', r_phone = Some (Field ''1234567890''),
                              r_phones = [Field [CHR 0xBD]]\<rparr>)],
         stdin = [],
         stdout = [''>>>'', ''You just changed number for contact 'alice'. New number is '' @
                            [CHR 0x27, CHR 0xBD, CHR 0x27]]\<rparr>)"
    using c' by (simp add: main_iter_cons l [simplified] p [simplified] end_words_def)
  from n c m show ?thesis by simp
qed

end
